theory Spec2Isabelle
  imports Complex_Main "HOL-Library.AList"
begin

text \<open>
  The tools and the resource of \<open>server.py\<close>, the MCP server for a WooCommerce store:
  \<open>get_products\<close>, \<open>get_product_by_id\<close>, \<open>update_product\<close>, \<open>analyze_products\<close>,
  \<open>bulk_update_products\<close>, \<open>audit_product_images\<close> and \<open>store_stats\<close>, over the client of
  \<open>woo_client.py\<close>. Each function of the source is a function here, with the same name
  and the same order of tests; an exception is a value (\<open>Inl\<close>), the store is a
  function from the calls made so far and the present call to an answer, and the
  calls are logged in the state.
\<close>

section \<open>Python values\<close>

text \<open>
  A Python \<open>str\<close> is a sequence of Unicode code points, and \<open>len\<close> counts code points,
  so a string is a list of naturals. \<open>ustr\<close> reads an ASCII literal of the source.
\<close>

type_synonym pystr = "nat list"

definition ustr :: "string \<Rightarrow> pystr" where
  "ustr s = map of_char s"

text \<open>
  The values the server handles are decoded JSON (\<open>Any\<close> in the annotations of the source).
  A dict keeps its insertion order, so it is an association list; lookups take the
  first entry of a key. Numbers are integers: floats are left out of the model.
\<close>

datatype pyval =
    PNone
  | PBool bool
  | PInt int
  | PStr pystr
  | PList "pyval list"
  | PDict "(pystr \<times> pyval) list"

type_synonym pydict = "(pystr \<times> pyval) list"

datatype exn =
    KeyError pystr
  | TypeError pystr
  | AttributeError pystr
  | ValueError pystr
  | OtherError pystr

text \<open>\<open>str(e)\<close>: a \<open>KeyError\<close> prints the repr of its key (the keys of the source are plain
  ASCII identifiers, whose repr is the key in single quotes), any other exception its message.\<close>

fun str_exn :: "exn \<Rightarrow> pystr" where
  "str_exn (KeyError k) = ustr [CHR 0x27] @ k @ ustr [CHR 0x27]"
| "str_exn (TypeError m) = m"
| "str_exn (AttributeError m) = m"
| "str_exn (ValueError m) = m"
| "str_exn (OtherError m) = m"

definition bind_exn :: "exn + 'a \<Rightarrow> ('a \<Rightarrow> exn + 'b) \<Rightarrow> exn + 'b" where
  "bind_exn m f = (case m of Inl e \<Rightarrow> Inl e | Inr x \<Rightarrow> f x)"

text \<open>Evaluating expressions left to right: the first one that raises decides.\<close>

fun sequence_exn :: "(exn + 'a) list \<Rightarrow> exn + 'a list" where
  "sequence_exn [] = Inr []"
| "sequence_exn (m # ms) =
     bind_exn m (\<lambda>x. bind_exn (sequence_exn ms) (\<lambda>xs. Inr (x # xs)))"

fun type_name :: "pyval \<Rightarrow> pystr" where
  "type_name PNone = ustr ''NoneType''"
| "type_name (PBool _) = ustr ''bool''"
| "type_name (PInt _) = ustr ''int''"
| "type_name (PStr _) = ustr ''str''"
| "type_name (PList _) = ustr ''list''"
| "type_name (PDict _) = ustr ''dict''"

text \<open>Truth value of an object, as \<open>if x\<close>, \<open>not x\<close>, \<open>x or y\<close> and \<open>any\<close> test it.\<close>

fun truthy :: "pyval \<Rightarrow> bool" where
  "truthy PNone = False"
| "truthy (PBool b) = b"
| "truthy (PInt i) = (i \<noteq> 0)"
| "truthy (PStr s) = (s \<noteq> [])"
| "truthy (PList xs) = (xs \<noteq> [])"
| "truthy (PDict d) = (d \<noteq> [])"

text \<open>\<open>str(n)\<close> of an integer: decimal digits, with a minus sign below zero.\<close>

function dec_digits :: "nat \<Rightarrow> pystr" where
  "dec_digits n = (if n < 10 then [48 + n] else dec_digits (n div 10) @ [48 + n mod 10])"
  by pat_completeness auto
termination
  by (relation "measure id") auto

declare dec_digits.simps [simp del]

definition str_int :: "int \<Rightarrow> pystr" where
  "str_int i = (if i < 0 then ustr ''-'' @ dec_digits (nat (- i)) else dec_digits (nat i))"

definition str_nat :: "nat \<Rightarrow> pystr" where
  "str_nat n = str_int (int n)"

text \<open>\<open>sep.join(xs)\<close>.\<close>

fun join :: "pystr \<Rightarrow> pystr list \<Rightarrow> pystr" where
  "join sep [] = []"
| "join sep [x] = x"
| "join sep (x # y # ys) = x @ sep @ join sep (y # ys)"

subsection \<open>String methods\<close>

text \<open>
  \<open>str.strip()\<close> removes leading and trailing white space; \<open>is_space\<close> lists the code
  points for which \<open>str.isspace\<close> holds.
\<close>

definition is_space :: "nat \<Rightarrow> bool" where
  "is_space c \<longleftrightarrow>
     (9 \<le> c \<and> c \<le> 13) \<or> (28 \<le> c \<and> c \<le> 32) \<or> c = 0x85 \<or> c = 0xA0 \<or> c = 0x1680 \<or>
     (0x2000 \<le> c \<and> c \<le> 0x200A) \<or> c = 0x2028 \<or> c = 0x2029 \<or> c = 0x202F \<or>
     c = 0x205F \<or> c = 0x3000"

definition strip :: "pystr \<Rightarrow> pystr" where
  "strip s = rev (dropWhile is_space (rev (dropWhile is_space s)))"

text \<open>
  On a string of ASCII characters \<open>str.lower()\<close> moves the capitals \<open>A\<close> to \<open>Z\<close> up by 32
  and leaves the rest. (On other strings it follows the Unicode tables of the
  interpreter, see \<open>lower\<close> below.)
\<close>

definition is_ascii :: "pystr \<Rightarrow> bool" where
  "is_ascii s = list_all (\<lambda>c. c < 128) s"

definition lower_ascii :: "nat \<Rightarrow> nat" where
  "lower_ascii c = (if 65 \<le> c \<and> c \<le> 90 then c + 32 else c)"

text \<open>\<open>s.replace(' ', '-')\<close>, the only replacement the source makes.\<close>

definition replace_space_dash :: "pystr \<Rightarrow> pystr" where
  "replace_space_dash s = map (\<lambda>c. if c = 32 then 45 else c) s"

subsection \<open>Operations on objects of unknown type\<close>

text \<open>
  The environment of the server: \<open>repr\<close> of a value (the text \<open>str\<close> gives for a list or a
  dict, and the quoted form of a string in a message; it never decides control flow),
  the text of a number under the format \<open>.1f\<close> (the source formats a float; the model
  computes the number exactly, as a rational),
  \<open>str.lower()\<close> and \<open>int()\<close> of the interpreter on the strings for which the model does
  not compute them itself (\<open>lower_other\<close>, \<open>int_other\<close>: every property below holds
  whatever these two are, so for the interpreter's own),
  what constructing \<open>WooClient()\<close> does (\<open>None\<close>: it succeeds; \<open>_load_config\<close> raises
  when \<open>config.json\<close> is missing, unreadable or lacks a required key), and what the
  REST API of the store does with a request, given the requests made before: it
  raises (no connection, a timeout) or gives a response.
\<close>

datatype call =
    GetProducts pydict
  | GetProductById int
  | UpdateProduct int pydict
  | GetCategories pydict

text \<open>A response: its status code, what \<open>response.json()\<close> gives (it raises on a body
  that is not JSON) and \<open>response.text\<close>.\<close>

record response =
  status_code :: int
  json :: "exn + pyval"
  body_text :: pystr

record env =
  repr :: "pyval \<Rightarrow> pystr"
  format_1f :: "rat \<Rightarrow> pystr"
  lower_other :: "pystr \<Rightarrow> pystr"
  int_other :: "pystr \<Rightarrow> exn + int"
  new_client :: "exn option"
  api :: "call list \<Rightarrow> call \<Rightarrow> exn + response"

definition quoted :: "pystr \<Rightarrow> pystr" where
  "quoted s = ustr [CHR 0x27] @ s @ ustr [CHR 0x27]"

text \<open>
  \<open>str.lower()\<close>: computed on a string of ASCII characters; on a string with any other
  character it is the interpreter's (one capital may give two code points, a sigma
  depends on its place in the word), taken from the environment.
\<close>

definition lower :: "env \<Rightarrow> pystr \<Rightarrow> pystr" where
  "lower E s = (if is_ascii s then map lower_ascii s else lower_other E s)"

text \<open>\<open>str(v)\<close>, as an f-string formats \<open>{v}\<close>.\<close>

fun py_str :: "env \<Rightarrow> pyval \<Rightarrow> pystr" where
  "py_str E PNone = ustr ''None''"
| "py_str E (PBool b) = (if b then ustr ''True'' else ustr ''False'')"
| "py_str E (PInt i) = str_int i"
| "py_str E (PStr s) = s"
| "py_str E v = repr E v"

text \<open>\<open>obj[key]\<close> with a string key.\<close>

fun py_getitem :: "pyval \<Rightarrow> pystr \<Rightarrow> exn + pyval" where
  "py_getitem (PDict d) k = (case map_of d k of Some v \<Rightarrow> Inr v | None \<Rightarrow> Inl (KeyError k))"
| "py_getitem (PStr s) k = Inl (TypeError (ustr ''string indices must be integers, not '' @ quoted (ustr ''str'')))"
| "py_getitem (PList xs) k = Inl (TypeError (ustr ''list indices must be integers or slices, not str''))"
| "py_getitem v k = Inl (TypeError (quoted (type_name v) @ ustr '' object is not subscriptable''))"

definition no_attribute :: "pyval \<Rightarrow> string \<Rightarrow> exn" where
  "no_attribute v a =
     AttributeError (quoted (type_name v) @ ustr '' object has no attribute '' @ quoted (ustr a))"

text \<open>\<open>obj.get(key, default)\<close>; \<open>obj.get(key)\<close> is the call with default \<open>None\<close>.\<close>

fun py_get :: "pyval \<Rightarrow> pystr \<Rightarrow> pyval \<Rightarrow> exn + pyval" where
  "py_get (PDict d) k dflt = (case map_of d k of Some v \<Rightarrow> Inr v | None \<Rightarrow> Inr dflt)"
| "py_get v k dflt = Inl (no_attribute v ''get'')"

fun py_strip :: "pyval \<Rightarrow> exn + pystr" where
  "py_strip (PStr s) = Inr (strip s)"
| "py_strip v = Inl (no_attribute v ''strip'')"

fun py_lower :: "env \<Rightarrow> pyval \<Rightarrow> exn + pystr" where
  "py_lower E (PStr s) = Inr (lower E s)"
| "py_lower E v = Inl (no_attribute v ''lower'')"

text \<open>\<open>for x in obj\<close>: the elements of a list, the characters of a string, the keys of a dict.\<close>

fun py_iter :: "pyval \<Rightarrow> exn + pyval list" where
  "py_iter (PList xs) = Inr xs"
| "py_iter (PStr s) = Inr (map (\<lambda>c. PStr [c]) s)"
| "py_iter (PDict d) = Inr (map (\<lambda>kv. PStr (fst kv)) d)"
| "py_iter v = Inl (TypeError (quoted (type_name v) @ ustr '' object is not iterable''))"

fun py_len :: "pyval \<Rightarrow> exn + nat" where
  "py_len (PList xs) = Inr (length xs)"
| "py_len (PStr s) = Inr (length s)"
| "py_len (PDict d) = Inr (length d)"
| "py_len v = Inl (TypeError (ustr ''object of type '' @ quoted (type_name v) @ ustr '' has no len()''))"

text \<open>
  \<open>int(v)\<close>. On a string of at most 4300 ASCII characters: white space (tab to carriage
  return, and the space) is dropped at both ends, a sign may come first, then come
  decimal digits that single underscores may separate. On any other string (one with
  a character beyond ASCII, such as the digits of another script, or one longer than
  the interpreter's limit of 4300 digits admits) the result is the interpreter's, taken
  from the environment. The integers of the model are those \<open>str\<close> prints, of at most
  4300 digits: the JSON parser and \<open>int\<close> give no others.
\<close>

definition ascii_space :: "nat \<Rightarrow> bool" where
  "ascii_space c \<longleftrightarrow> (9 \<le> c \<and> c \<le> 13) \<or> c = 32"

definition ascii_strip :: "pystr \<Rightarrow> pystr" where
  "ascii_strip s = rev (dropWhile ascii_space (rev (dropWhile ascii_space s)))"

definition is_digit :: "nat \<Rightarrow> bool" where
  "is_digit c \<longleftrightarrow> 48 \<le> c \<and> c \<le> 57"

fun digits_val :: "nat \<Rightarrow> pystr \<Rightarrow> nat option" where
  "digits_val acc [] = Some acc"
| "digits_val acc [c] = (if is_digit c then Some (10 * acc + (c - 48)) else None)"
| "digits_val acc (c # d # cs) =
     (if is_digit c then digits_val (10 * acc + (c - 48)) (d # cs)
      else if c = 95 \<and> is_digit d then digits_val acc (d # cs)
      else None)"

definition unsigned_of_str :: "pystr \<Rightarrow> nat option" where
  "unsigned_of_str s = (case s of [] \<Rightarrow> None | c # cs \<Rightarrow> if is_digit c then digits_val 0 s else None)"

definition ascii_int :: "pystr \<Rightarrow> int option" where
  "ascii_int s =
     (case ascii_strip s of
        [] \<Rightarrow> None
      | c # cs \<Rightarrow>
          if c = 45 then map_option (\<lambda>n. - int n) (unsigned_of_str cs)
          else if c = 43 then map_option int (unsigned_of_str cs)
          else map_option int (unsigned_of_str (c # cs)))"

definition int_of_str :: "env \<Rightarrow> pystr \<Rightarrow> exn + int" where
  "int_of_str E s =
     (if is_ascii s \<and> length s \<le> 4300 then
        (case ascii_int s of
           Some i \<Rightarrow> Inr i
         | None \<Rightarrow> Inl (ValueError (ustr ''invalid literal for int() with base 10: '' @
                                     repr E (PStr s))))
      else int_other E s)"

fun py_int :: "env \<Rightarrow> pyval \<Rightarrow> exn + int" where
  "py_int E (PInt i) = Inr i"
| "py_int E (PBool b) = Inr (if b then 1 else 0)"
| "py_int E (PStr s) = int_of_str E s"
| "py_int E v =
     Inl (TypeError (ustr ''int() argument must be a string, a bytes-like object or a real number, not ''
                     @ quoted (type_name v)))"

section \<open>The store client\<close>

text \<open>
  The state of the process: whether the module-level \<open>_woo_client\<close> is set, and the calls
  made to the remote store so far (a log the source does not keep; it records which
  client methods ran, in order).
\<close>

record world =
  client_ready :: bool
  calls :: "call list"

type_synonym 'a io = "world \<Rightarrow> (exn + 'a) \<times> world"

definition bind_io :: "'a io \<Rightarrow> ('a \<Rightarrow> 'b io) \<Rightarrow> 'b io" where
  "bind_io m f w = (case m w of (Inl e, w') \<Rightarrow> (Inl e, w') | (Inr x, w') \<Rightarrow> f x w')"

definition pure_io :: "exn + 'a \<Rightarrow> 'a io" where
  "pure_io r w = (r, w)"

text \<open>\<open>try: body except Exception as e: return handler(e)\<close> around a whole function body.\<close>

definition try_except :: "pystr io \<Rightarrow> (exn \<Rightarrow> pystr) \<Rightarrow> pystr io" where
  "try_except body handler w =
     (case body w of (Inl e, w') \<Rightarrow> (Inr (handler e), w') | (Inr r, w') \<Rightarrow> (Inr r, w'))"

definition get_woo_client :: "env \<Rightarrow> unit io" where
  "get_woo_client E w =
     (if client_ready w then (Inr (), w)
      else case new_client E of
             Some e \<Rightarrow> (Inl e, w)
           | None \<Rightarrow> (Inr (), w\<lparr>client_ready := True\<rparr>))"

text \<open>
  A method of \<open>WooClient\<close> (\<open>get_products\<close>, \<open>get_product_by_id\<close>, \<open>update_product\<close>,
  \<open>get_categories\<close>; the four differ in the request they make): one request to the
  store; on status 200 the decoded body is returned, on any other status an exception
  with the status and the text of the response is raised; the method logs every
  exception and raises it again.
\<close>

definition client_call :: "env \<Rightarrow> call \<Rightarrow> pyval io" where
  "client_call E c w =
     (bind_exn (api E (calls w) c) (\<lambda>response.
        if status_code response = 200 then json response
        else Inl (OtherError (ustr ''API request failed: '' @ str_int (status_code response) @
                              ustr '' - '' @ body_text response))),
      w\<lparr>calls := calls w @ [c]\<rparr>)"

definition nl :: pystr where
  "nl = [10]"

section \<open>Shared pieces of the tools\<close>

text \<open>An argument of type \<open>Optional[str]\<close> or \<open>Optional[int]\<close> as an object.\<close>

definition of_opt_str :: "pystr option \<Rightarrow> pyval" where
  "of_opt_str x = (case x of None \<Rightarrow> PNone | Some s \<Rightarrow> PStr s)"

definition of_opt_int :: "int option \<Rightarrow> pyval" where
  "of_opt_int x = (case x of None \<Rightarrow> PNone | Some i \<Rightarrow> PInt i)"

text \<open>\<open>f"label{obj[key]}\n"\<close>.\<close>

definition field_line :: "env \<Rightarrow> pyval \<Rightarrow> string \<Rightarrow> string \<Rightarrow> exn + pystr" where
  "field_line E obj label key =
     bind_exn (py_getitem obj (ustr key)) (\<lambda>v. Inr (ustr label @ py_str E v @ nl))"

text \<open>\<open>f"label{obj.get(key, dflt)}"\<close>.\<close>

definition get_text :: "env \<Rightarrow> pyval \<Rightarrow> string \<Rightarrow> string \<Rightarrow> string \<Rightarrow> exn + pystr" where
  "get_text E obj label key dflt =
     bind_exn (py_get obj (ustr key) (PStr (ustr dflt))) (\<lambda>v. Inr (ustr label @ py_str E v))"

text \<open>
  \<open>next((item['value'] for item in meta_data if item['key'] == K), None)\<close>: the generator
  is consumed up to the first item whose key is \<open>K\<close>; the items after it are not looked at.
\<close>

fun next_meta_value :: "pystr \<Rightarrow> pyval list \<Rightarrow> exn + pyval" where
  "next_meta_value K [] = Inr PNone"
| "next_meta_value K (item # items) =
     bind_exn (py_getitem item (ustr ''key'')) (\<lambda>k.
       if k = PStr K then py_getitem item (ustr ''value'') else next_meta_value K items)"

definition seo_lookup :: "pystr \<Rightarrow> pyval \<Rightarrow> exn + pyval" where
  "seo_lookup K meta_data = bind_exn (py_iter meta_data) (next_meta_value K)"

definition yoast_title :: pystr where
  "yoast_title = ustr ''_yoast_wpseo_title''"

definition yoast_metadesc :: pystr where
  "yoast_metadesc = ustr ''_yoast_wpseo_metadesc''"

text \<open>\<open>not obj.get(key, '').strip()\<close>.\<close>

definition blank_field :: "pyval \<Rightarrow> string \<Rightarrow> exn + bool" where
  "blank_field obj key =
     bind_exn (py_get obj (ustr key) (PStr [])) (\<lambda>v.
     bind_exn (py_strip v) (\<lambda>s. Inr (s = [])))"

text \<open>The SEO test of \<open>analyze_products\<close> and of the loop of \<open>store_stats\<close>: both values
  are looked up, then \<open>not seo_title or not seo_desc\<close>.\<close>

definition seo_missing :: "pyval \<Rightarrow> exn + bool" where
  "seo_missing product =
     bind_exn (py_get product (ustr ''meta_data'') (PList [])) (\<lambda>meta_data.
     bind_exn (seo_lookup yoast_title meta_data) (\<lambda>seo_title.
     bind_exn (seo_lookup yoast_metadesc meta_data) (\<lambda>seo_desc.
       Inr (if \<not> truthy seo_title then True else \<not> truthy seo_desc))))"

section \<open>get_products\<close>

definition get_products_params :: "pystr option \<Rightarrow> int option \<Rightarrow> int \<Rightarrow> pydict" where
  "get_products_params status category per_page =
     (let params = [(ustr ''per_page'', PInt (min per_page 100))];
          params = (if truthy (of_opt_str status)
                    then AList.update (ustr ''status'') (of_opt_str status) params else params);
          params = (if truthy (of_opt_int category)
                    then AList.update (ustr ''category'') (of_opt_int category) params else params)
      in params)"

text \<open>The two tests of \<open>get_products\<close> call \<open>product.get(key)\<close> with no default.\<close>

definition missing_content :: "pyval \<Rightarrow> exn + pystr list" where
  "missing_content product =
     bind_exn (bind_exn (py_get product (ustr ''description'') PNone) py_strip) (\<lambda>d.
     bind_exn (bind_exn (py_get product (ustr ''short_description'') PNone) py_strip) (\<lambda>sd.
       Inr ((if d = [] then [ustr ''description''] else []) @
            (if sd = [] then [ustr ''short description''] else []))))"

definition product_block :: "env \<Rightarrow> pyval \<Rightarrow> exn + pystr" where
  "product_block E product =
     bind_exn (sequence_exn
       [field_line E product ''ID: '' ''id'',
        field_line E product ''Name: '' ''name'',
        field_line E product ''Status: '' ''status'',
        field_line E product ''Price: '' ''price'',
        field_line E product ''Stock Status: '' ''stock_status'']) (\<lambda>lines.
     bind_exn (missing_content product) (\<lambda>mc.
       Inr (concat lines @
            (if mc \<noteq> [] then ustr ''Missing content: '' @ join (ustr '', '') mc @ nl else []) @
            nl)))"

definition get_products_text :: "env \<Rightarrow> pyval \<Rightarrow> exn + pystr" where
  "get_products_text E products =
     (if \<not> truthy products then Inr (ustr ''No products matched the query.'')
      else
        bind_exn (py_len products) (\<lambda>n.
        bind_exn (py_iter products) (\<lambda>ps.
        bind_exn (sequence_exn (map (product_block E) ps)) (\<lambda>blocks.
          Inr (ustr ''found '' @ str_nat n @ ustr '' products:'' @ nl @ nl @ concat blocks)))))"

text \<open>The statements under the \<open>try\<close> of \<open>get_products\<close>.\<close>

definition get_products_body :: "env \<Rightarrow> pystr option \<Rightarrow> int option \<Rightarrow> int \<Rightarrow> pystr io" where
  "get_products_body E status category per_page =
     bind_io (get_woo_client E) (\<lambda>client.
      bind_io (client_call E (GetProducts (get_products_params status category per_page)))
        (\<lambda>products. pure_io (get_products_text E products)))"

definition get_products :: "env \<Rightarrow> pystr option \<Rightarrow> int option \<Rightarrow> int \<Rightarrow> pystr io" where
  "get_products E status category per_page =
     try_except (get_products_body E status category per_page)
       (\<lambda>e. ustr ''Error fetching products: '' @ str_exn e)"

section \<open>get_product_by_id\<close>

definition py_or :: "pyval \<Rightarrow> pyval \<Rightarrow> pyval" where
  "py_or a b = (if truthy a then a else b)"

definition category_line :: "env \<Rightarrow> pyval \<Rightarrow> exn + pystr" where
  "category_line E cat =
     bind_exn (py_getitem cat (ustr ''name'')) (\<lambda>name.
     bind_exn (py_getitem cat (ustr ''id'')) (\<lambda>cid.
       Inr (ustr ''  - '' @ py_str E name @ ustr '' (ID: '' @ py_str E cid @ ustr '')'' @ nl)))"

definition categories_text :: "env \<Rightarrow> pyval \<Rightarrow> exn + pystr" where
  "categories_text E product =
     bind_exn (py_get product (ustr ''categories'') PNone) (\<lambda>c.
       if truthy c then
         bind_exn (py_getitem product (ustr ''categories'')) (\<lambda>cs.
         bind_exn (py_iter cs) (\<lambda>cats.
         bind_exn (sequence_exn (map (category_line E) cats)) (\<lambda>ls.
           Inr (ustr ''Categories:'' @ nl @ concat ls))))
       else Inr [])"

definition seo_text :: "env \<Rightarrow> pyval \<Rightarrow> exn + pystr" where
  "seo_text E product =
     bind_exn (py_get product (ustr ''meta_data'') (PList [])) (\<lambda>meta_data.
     bind_exn (seo_lookup yoast_title meta_data) (\<lambda>seo_title.
     bind_exn (seo_lookup yoast_metadesc meta_data) (\<lambda>seo_desc.
       Inr (ustr ''SEO Title: '' @ py_str E (py_or seo_title (PStr (ustr ''Not set''))) @ nl @
            ustr ''SEO Description: '' @ py_str E (py_or seo_desc (PStr (ustr ''Not set''))) @
            nl @ nl))))"

definition product_details :: "env \<Rightarrow> pyval \<Rightarrow> exn + pystr" where
  "product_details E product =
     bind_exn (sequence_exn
       [bind_exn (py_getitem product (ustr ''id'')) (\<lambda>v.
          Inr (ustr ''Product Details (ID: '' @ py_str E v @ ustr '')'' @ nl)),
        Inr (replicate 40 61 @ nl @ nl),
        field_line E product ''Name: '' ''name'',
        field_line E product ''Status: '' ''status'',
        field_line E product ''Type: '' ''type'',
        field_line E product ''Price: '' ''price'',
        field_line E product ''Regular Price: '' ''regular_price'',
        field_line E product ''Sale Price: '' ''sale_price'',
        field_line E product ''Stock Status: '' ''stock_status'',
        get_text E product ''Stock Quantity: '' ''stock_quantity'' ''N/A'',
        Inr (nl @ nl),
        get_text E product ''Description:\<newline>'' ''description'' ''No description'',
        Inr (nl @ nl),
        get_text E product ''Short Description:\<newline>'' ''short_description'' ''No short description'',
        Inr (nl @ nl),
        seo_text E product,
        categories_text E product]) (\<lambda>parts. Inr (concat parts))"

text \<open>The statements under the \<open>try\<close> of \<open>get_product_by_id\<close>.\<close>

definition get_product_by_id_body :: "env \<Rightarrow> int \<Rightarrow> pystr io" where
  "get_product_by_id_body E product_id =
     bind_io (get_woo_client E) (\<lambda>client.
      bind_io (client_call E (GetProductById product_id)) (\<lambda>product.
        pure_io (product_details E product)))"

definition get_product_by_id :: "env \<Rightarrow> int \<Rightarrow> pystr io" where
  "get_product_by_id E product_id =
     try_except (get_product_by_id_body E product_id)
       (\<lambda>e. ustr ''Error fetching product: '' @ str_exn e)"

section \<open>update_product\<close>

definition meta_entry :: "pystr \<Rightarrow> pyval \<Rightarrow> pyval" where
  "meta_entry k v = PDict [(ustr ''key'', PStr k), (ustr ''value'', v)]"

text \<open>The payload of \<open>update_product\<close>: a field enters it when the argument is true, that
  is, neither \<open>None\<close> nor the empty string.\<close>

definition update_product_data ::
  "pystr option \<Rightarrow> pystr option \<Rightarrow> pystr option \<Rightarrow> pystr option \<Rightarrow> pydict" where
  "update_product_data description short_description meta_title meta_description =
     (let update_data = [];
          update_data = (if truthy (of_opt_str description)
             then AList.update (ustr ''description'') (of_opt_str description) update_data
             else update_data);
          update_data = (if truthy (of_opt_str short_description)
             then AList.update (ustr ''short_description'') (of_opt_str short_description) update_data
             else update_data);
          meta_data = [];
          meta_data = (if truthy (of_opt_str meta_title)
             then meta_data @ [meta_entry yoast_title (of_opt_str meta_title)] else meta_data);
          meta_data = (if truthy (of_opt_str meta_description)
             then meta_data @ [meta_entry yoast_metadesc (of_opt_str meta_description)] else meta_data);
          update_data = (if meta_data \<noteq> []
             then AList.update (ustr ''meta_data'') (PList meta_data) update_data else update_data)
      in update_data)"

definition updated_line :: "pystr option \<Rightarrow> string \<Rightarrow> pystr" where
  "updated_line arg what =
     (if truthy (of_opt_str arg) then [0x2705] @ ustr '' '' @ ustr what @ ustr '' updated'' @ nl else [])"

definition update_product_text ::
  "env \<Rightarrow> int \<Rightarrow> pystr option \<Rightarrow> pystr option \<Rightarrow> pystr option \<Rightarrow> pystr option \<Rightarrow> pyval
   \<Rightarrow> exn + pystr" where
  "update_product_text E product_id description short_description meta_title meta_description
     updated_product =
     bind_exn (py_getitem updated_product (ustr ''name'')) (\<lambda>name.
       Inr (ustr ''Successfully updated product ID '' @ str_int product_id @ ustr '':'' @ nl @ nl @
            updated_line description ''Description'' @
            updated_line short_description ''Short description'' @
            updated_line meta_title ''SEO title'' @
            updated_line meta_description ''SEO description'' @
            nl @ ustr ''Product: '' @ py_str E name))"

text \<open>The statements under the \<open>try\<close> of \<open>update_product\<close>.\<close>

definition update_product_body ::
  "env \<Rightarrow> int \<Rightarrow> pystr option \<Rightarrow> pystr option \<Rightarrow> pystr option \<Rightarrow> pystr option \<Rightarrow> pystr io" where
  "update_product_body E product_id description short_description meta_title meta_description =
     bind_io (get_woo_client E) (\<lambda>client.
        let update_data =
              update_product_data description short_description meta_title meta_description
        in if update_data = [] then pure_io (Inr (ustr ''Error: No update data provided''))
           else
             bind_io (client_call E (UpdateProduct product_id update_data)) (\<lambda>updated_product.
               pure_io (update_product_text E product_id description short_description
                          meta_title meta_description updated_product)))"

definition update_product ::
  "env \<Rightarrow> int \<Rightarrow> pystr option \<Rightarrow> pystr option \<Rightarrow> pystr option \<Rightarrow> pystr option \<Rightarrow> pystr io" where
  "update_product E product_id description short_description meta_title meta_description =
     try_except (update_product_body E product_id description short_description meta_title meta_description)
       (\<lambda>e. ustr ''Error updating product: '' @ str_exn e)"

section \<open>analyze_products\<close>

text \<open>A loop whose body may raise: the first exception ends it.\<close>

fun fold_exn :: "('a \<Rightarrow> 's \<Rightarrow> exn + 's) \<Rightarrow> 'a list \<Rightarrow> 's \<Rightarrow> exn + 's" where
  "fold_exn f [] acc = Inr acc"
| "fold_exn f (x # xs) acc = bind_exn (f x acc) (fold_exn f xs)"

record product_info =
  info_id :: pyval
  info_name :: pyval
  info_status :: pyval

record analysis =
  missing_description :: "product_info list"
  missing_short_description :: "product_info list"
  missing_seo :: "product_info list"

definition analyze_product :: "pyval \<Rightarrow> analysis \<Rightarrow> exn + analysis" where
  "analyze_product product a =
     bind_exn (py_getitem product (ustr ''id'')) (\<lambda>pid.
     bind_exn (py_getitem product (ustr ''name'')) (\<lambda>name.
     bind_exn (py_getitem product (ustr ''status'')) (\<lambda>status.
     let product_info = \<lparr>info_id = pid, info_name = name, info_status = status\<rparr> in
     bind_exn (blank_field product ''description'') (\<lambda>no_description.
     bind_exn (blank_field product ''short_description'') (\<lambda>no_short_description.
     bind_exn (seo_missing product) (\<lambda>no_seo.
       Inr \<lparr>missing_description =
              missing_description a @ (if no_description then [product_info] else []),
            missing_short_description =
              missing_short_description a @ (if no_short_description then [product_info] else []),
            missing_seo = missing_seo a @ (if no_seo then [product_info] else [])\<rparr>))))))"

text \<open>The listing under a heading: the first ten products, then how many more.\<close>

definition listing :: "env \<Rightarrow> product_info list \<Rightarrow> pystr" where
  "listing E xs =
     (if xs \<noteq> [] then
        concat (map (\<lambda>p. ustr ''  - ID '' @ py_str E (info_id p) @ ustr '': '' @
                          py_str E (info_name p) @ nl) (take 10 xs)) @
        (if length xs > 10 then ustr ''  ... and '' @ str_nat (length xs - 10) @ ustr '' more'' @ nl
         else [])
      else [])"

definition analysis_text :: "env \<Rightarrow> nat \<Rightarrow> analysis \<Rightarrow> pystr" where
  "analysis_text E n a =
     ustr ''Products Analysis:'' @ nl @ nl @
     replicate 30 61 @ nl @ nl @
     ustr ''Analyzed '' @ str_nat n @ ustr '' products'' @ nl @ nl @
     [0x1F4DD] @ ustr '' Missing Descriptions: '' @ str_nat (length (missing_description a)) @ nl @
     listing E (missing_description a) @
     nl @ [0x1F4C4] @ ustr '' Missing Short Descriptions: '' @
     str_nat (length (missing_short_description a)) @ nl @
     listing E (missing_short_description a) @
     nl @ [0x1F50D] @ ustr '' Missing SEO Data: '' @ str_nat (length (missing_seo a)) @ nl @
     listing E (missing_seo a)"

definition analyze_products_text :: "env \<Rightarrow> pyval \<Rightarrow> exn + pystr" where
  "analyze_products_text E products =
     (if \<not> truthy products then Inr (ustr ''No products found to analyze.'')
      else
        bind_exn (py_iter products) (\<lambda>ps.
        bind_exn (fold_exn analyze_product ps
                    \<lparr>missing_description = [], missing_short_description = [], missing_seo = []\<rparr>)
          (\<lambda>a.
        bind_exn (py_len products) (\<lambda>n. Inr (analysis_text E n a)))))"

text \<open>The statements under the \<open>try\<close> of \<open>analyze_products\<close>.\<close>

definition analyze_products_body :: "env \<Rightarrow> int \<Rightarrow> pystr io" where
  "analyze_products_body E per_page =
     bind_io (get_woo_client E) (\<lambda>client.
      bind_io (client_call E (GetProducts [(ustr ''per_page'', PInt (min per_page 100))]))
        (\<lambda>products. pure_io (analyze_products_text E products)))"

definition analyze_products :: "env \<Rightarrow> int \<Rightarrow> pystr io" where
  "analyze_products E per_page =
     try_except (analyze_products_body E per_page)
       (\<lambda>e. ustr ''Error analyzing products: '' @ str_exn e)"

section \<open>bulk_update_products\<close>

definition has_key :: "pydict \<Rightarrow> string \<Rightarrow> bool" where
  "has_key d k \<longleftrightarrow> map_of d (ustr k) \<noteq> None"

text \<open>\<open>d[k]\<close> under the test \<open>k in d\<close>, and \<open>d.get(k, dflt)\<close>, on a dict.\<close>

definition dict_get :: "pydict \<Rightarrow> string \<Rightarrow> pyval \<Rightarrow> pyval" where
  "dict_get d k dflt = (case map_of d (ustr k) of Some v \<Rightarrow> v | None \<Rightarrow> dflt)"

text \<open>The payload of one request of the bulk update: every recognised key that is
  present enters it, whatever its value.\<close>

definition bulk_update_data :: "pydict \<Rightarrow> pydict" where
  "bulk_update_data update =
     (let update_data = [];
          update_data = fold (\<lambda>field ud.
              if has_key update field
              then AList.update (ustr field) (dict_get update field PNone) ud else ud)
            [''description'', ''short_description''] update_data;
          meta_data = [];
          meta_data = (if has_key update ''meta_title''
             then meta_data @ [meta_entry yoast_title (dict_get update ''meta_title'' PNone)]
             else meta_data);
          meta_data = (if has_key update ''meta_description''
             then meta_data @ [meta_entry yoast_metadesc (dict_get update ''meta_description'' PNone)]
             else meta_data);
          update_data = (if meta_data \<noteq> []
             then AList.update (ustr ''meta_data'') (PList meta_data) update_data else update_data)
      in update_data)"

text \<open>What one pass of the loop appends: an entry of \<open>results\<close> or an entry of \<open>errors\<close>.\<close>

datatype entry = Updated pystr | Failed pystr

text \<open>The body of the inner \<open>try\<close>.\<close>

definition bulk_try :: "env \<Rightarrow> pydict \<Rightarrow> entry io" where
  "bulk_try E update =
     (if \<not> has_key update ''product_id'' then pure_io (Inr (Failed (ustr ''Missing product_id in update'')))
      else
        bind_io (pure_io (py_int E (dict_get update ''product_id'' PNone))) (\<lambda>product_id.
          let update_data = bulk_update_data update in
          if update_data \<noteq> [] then
            bind_io (client_call E (UpdateProduct product_id update_data)) (\<lambda>updated_product.
              pure_io (bind_exn (py_getitem updated_product (ustr ''name'')) (\<lambda>name.
                Inr (Updated ([0x2705] @ ustr '' Updated product ID '' @ str_int product_id @
                              ustr '': '' @ py_str E name)))))
          else pure_io (Inr (Failed (ustr ''No update data for product ID '' @ str_int product_id)))))"

text \<open>One pass of the loop: the inner \<open>try\<close> with its handler. It always yields an entry.\<close>

definition bulk_one :: "env \<Rightarrow> pydict \<Rightarrow> world \<Rightarrow> entry \<times> world" where
  "bulk_one E update w =
     (case bulk_try E update w of
        (Inr r, w') \<Rightarrow> (r, w')
      | (Inl e, w') \<Rightarrow>
          (Failed (ustr ''Failed to update product ID '' @
                   py_str E (dict_get update ''product_id'' (PStr (ustr ''unknown''))) @
                   ustr '': '' @ str_exn e), w'))"

definition append_entry :: "entry \<Rightarrow> pystr list \<times> pystr list \<Rightarrow> pystr list \<times> pystr list" where
  "append_entry r acc =
     (case r of
        Updated s \<Rightarrow> (fst acc @ [s], snd acc)
      | Failed s \<Rightarrow> (fst acc, snd acc @ [s]))"

text \<open>The loop over \<open>updates\<close>, from the lists \<open>results\<close> and \<open>errors\<close> collected so far.\<close>

fun bulk_loop ::
  "env \<Rightarrow> pydict list \<Rightarrow> pystr list \<times> pystr list \<Rightarrow> world \<Rightarrow> (pystr list \<times> pystr list) \<times> world" where
  "bulk_loop E [] acc w = (acc, w)"
| "bulk_loop E (update # updates) acc w =
     (case bulk_one E update w of (r, w') \<Rightarrow> bulk_loop E updates (append_entry r acc) w')"

definition bulk_summary :: "pystr list \<Rightarrow> pystr list \<Rightarrow> pystr" where
  "bulk_summary results errors =
     ustr ''Bulk Update Results'' @ nl @
     replicate 25 61 @ nl @ nl @
     ustr ''Successfully updated: '' @ str_nat (length results) @ nl @
     ustr ''Errors: '' @ str_nat (length errors) @ nl @ nl @
     (if results \<noteq> [] then
        ustr ''Successful Updates:'' @ nl @ concat (map (\<lambda>success. success @ nl) results) @ nl
      else []) @
     (if errors \<noteq> [] then
        ustr ''Errors:'' @ nl @ concat (map (\<lambda>error. [0x274C] @ ustr '' '' @ error @ nl) errors)
      else [])"

text \<open>The statements under the \<open>try\<close> of \<open>bulk_update_products\<close>.\<close>

definition bulk_update_products_body :: "env \<Rightarrow> pydict list \<Rightarrow> pystr io" where
  "bulk_update_products_body E updates =
     bind_io (get_woo_client E) (\<lambda>client w.
        case bulk_loop E updates ([], []) w of
          ((results, errors), w') \<Rightarrow> (Inr (bulk_summary results errors), w'))"

definition bulk_update_products :: "env \<Rightarrow> pydict list \<Rightarrow> pystr io" where
  "bulk_update_products E updates =
     try_except (bulk_update_products_body E updates)
       (\<lambda>e. ustr ''Error in bulk update: '' @ str_exn e)"

section \<open>audit_product_images\<close>

record audit =
  issues :: "pystr list"
  suggestions :: "pystr list"
  good_practices :: "pystr list"

definition warning_sign :: pystr where
  "warning_sign = [0x26A0, 0xFE0F]"

text \<open>The chain \<open>if\<close>/\<open>elif\<close>/\<open>elif\<close>/\<open>else\<close> on the stripped alt text.\<close>

definition check_alt :: "env \<Rightarrow> pyval \<Rightarrow> nat \<Rightarrow> pystr \<Rightarrow> audit \<Rightarrow> exn + audit" where
  "check_alt E product_name image_num alt_text a =
     (if alt_text = [] then
        Inr (a\<lparr>issues := issues a @
                  [[0x274C] @ ustr '' Image '' @ str_nat image_num @ ustr '' missing alt text''],
               suggestions := suggestions a @
                  [ustr ''Add alt text: '' @
                   quoted (py_str E product_name @ ustr '' - product view '' @ str_nat image_num)]\<rparr>)
      else if length alt_text < 10 then
        Inr (a\<lparr>issues := issues a @
                  [warning_sign @ ustr '' Image '' @ str_nat image_num @
                   ustr '' alt text too short: '' @ quoted alt_text],
               suggestions := suggestions a @
                  [ustr ''Expand alt text to be more descriptive (10+ characters)'']\<rparr>)
      else
        bind_exn (py_lower E product_name) (\<lambda>lowered.
          if lower E alt_text = lowered then
            Inr (a\<lparr>issues := issues a @
                      [warning_sign @ ustr '' Image '' @ str_nat image_num @
                       ustr '' alt text is just product name''],
                   suggestions := suggestions a @
                      [ustr ''Make alt text more descriptive: '' @
                       quoted (py_str E product_name @ ustr '' - [describe what's shown]'')]\<rparr>)
          else
            Inr (a\<lparr>good_practices := good_practices a @
                      [[0x2705] @ ustr '' Image '' @ str_nat image_num @
                       ustr '' has good alt text'']\<rparr>)))"

definition generic_names :: "pystr list" where
  "generic_names = [ustr ''image'', ustr ''img'', ustr ''photo'', ustr ''picture'']"

text \<open>The test on the stripped name of the image, after the chain on the alt text.\<close>

definition check_name :: "env \<Rightarrow> pyval \<Rightarrow> nat \<Rightarrow> pystr \<Rightarrow> audit \<Rightarrow> exn + audit" where
  "check_name E product_name image_num image_name a =
     (if image_name = [] \<or> lower E image_name \<in> set generic_names then
        bind_exn (py_lower E product_name) (\<lambda>lowered.
          Inr (a\<lparr>issues := issues a @
                    [warning_sign @ ustr '' Image '' @ str_nat image_num @
                     ustr '' has generic or missing name''],
                 suggestions := suggestions a @
                    [ustr ''Use descriptive filename: '' @
                     quoted (replace_space_dash lowered @ ustr ''-'' @ str_nat image_num)]\<rparr>))
      else Inr a)"

definition audit_image :: "env \<Rightarrow> pyval \<Rightarrow> nat \<Rightarrow> pyval \<Rightarrow> audit \<Rightarrow> exn + audit" where
  "audit_image E product_name image_num img a =
     bind_exn (bind_exn (py_get img (ustr ''alt'') (PStr [])) py_strip) (\<lambda>alt_text.
     bind_exn (bind_exn (py_get img (ustr ''name'') (PStr [])) py_strip) (\<lambda>image_name.
     bind_exn (check_alt E product_name image_num alt_text a)
       (check_name E product_name image_num image_name)))"

text \<open>\<open>for i, image in enumerate(images)\<close>, with \<open>image_num = i + 1\<close> (the variable
  \<open>image\<close> of the source is \<open>img\<close> here).\<close>

fun audit_loop :: "env \<Rightarrow> pyval \<Rightarrow> nat \<Rightarrow> pyval list \<Rightarrow> audit \<Rightarrow> exn + audit" where
  "audit_loop E product_name i [] a = Inr a"
| "audit_loop E product_name i (img # imgs) a =
     bind_exn (audit_image E product_name (i + 1) img a)
       (audit_loop E product_name (Suc i) imgs)"

definition audit_header :: "env \<Rightarrow> pyval \<Rightarrow> pystr" where
  "audit_header E product_name =
     nl @ [0x1F5BC, 0xFE0F] @ ustr '' Image SEO Audit for: '' @ py_str E product_name @ nl @
     replicate 50 61"

definition bullets :: "pystr list \<Rightarrow> pystr" where
  "bullets xs = concat (map (\<lambda>x. ustr ''  '' @ [0x2022] @ ustr '' '' @ x @ nl) xs)"

definition audit_report :: "env \<Rightarrow> pyval \<Rightarrow> nat \<Rightarrow> audit \<Rightarrow> pystr" where
  "audit_report E product_name total_images a =
     audit_header E product_name @ nl @ nl @
     [0x1F4CA] @ ustr '' Summary:'' @ nl @
     ustr ''  '' @ [0x2022] @ ustr '' Total Images: '' @ str_nat total_images @ nl @
     ustr ''  '' @ [0x2022] @ ustr '' Issues Found: '' @ str_nat (length (issues a)) @ nl @
     ustr ''  '' @ [0x2022] @ ustr '' Good Practices: '' @ str_nat (length (good_practices a)) @
     nl @ nl @
     (if issues a \<noteq> [] then [0x274C] @ ustr '' Issues Found:'' @ nl @ bullets (issues a) @ nl
      else []) @
     (if suggestions a \<noteq> [] then
        [0x1F4A1] @ ustr '' Suggestions:'' @ nl @ bullets (suggestions a) @ nl
      else []) @
     (if good_practices a \<noteq> [] then
        [0x2705] @ ustr '' Good Practices:'' @ nl @ bullets (good_practices a) @ nl
      else []) @
     [0x1F3AF] @ ustr '' SEO Best Practices:'' @ nl @
     bullets [ustr ''Alt text should describe what's in the image'',
              ustr ''Include product name + descriptive details'',
              ustr ''Keep alt text under 125 characters'',
              ustr ''Use keywords naturally, don't stuff'',
              ustr ''Consider image file size for page speed'']"

definition no_images_report :: "env \<Rightarrow> pyval \<Rightarrow> pystr" where
  "no_images_report E product_name =
     audit_header E product_name @ nl @ nl @
     [0x274C] @ ustr '' Critical Issue: No images found!'' @ nl @ nl @
     ustr ''Suggestions:'' @ nl @
     [0x2022] @ ustr '' Add at least 1-3 high-quality images for '' @
       quoted (py_str E product_name) @ nl @
     [0x2022] @ ustr '' Images improve conversion rates by 30-40%'' @ nl @
     [0x2022] @ ustr '' Add main product image, detail shots, and lifestyle images''"

definition empty_audit :: audit where
  "empty_audit = \<lparr>issues = [], suggestions = [], good_practices = []\<rparr>"

definition audit_text :: "env \<Rightarrow> int \<Rightarrow> pyval \<Rightarrow> exn + pystr" where
  "audit_text E product_id product =
     (if \<not> truthy product then
        Inr ([0x274C] @ ustr '' Product '' @ str_int product_id @ ustr '' not found'')
      else
        bind_exn (py_get product (ustr ''name'') (PStr (ustr ''Unknown Product''))) (\<lambda>product_name.
        bind_exn (py_get product (ustr ''images'') (PList [])) (\<lambda>images.
          if \<not> truthy images then Inr (no_images_report E product_name)
          else
            bind_exn (py_iter images) (\<lambda>imgs.
            bind_exn (audit_loop E product_name 0 imgs empty_audit) (\<lambda>a.
            bind_exn (py_len images) (\<lambda>total_images.
              Inr (audit_report E product_name total_images a)))))))"

text \<open>The statements under the \<open>try\<close> of \<open>audit_product_images\<close>.\<close>

definition audit_product_images_body :: "env \<Rightarrow> int \<Rightarrow> pystr io" where
  "audit_product_images_body E product_id =
     bind_io (get_woo_client E) (\<lambda>client.
      bind_io (client_call E (GetProductById product_id)) (\<lambda>product.
        pure_io (audit_text E product_id product)))"

definition audit_product_images :: "env \<Rightarrow> int \<Rightarrow> pystr io" where
  "audit_product_images E product_id =
     try_except (audit_product_images_body E product_id)
       (\<lambda>e. ustr ''Error auditing product images: '' @ str_exn e)"

section \<open>The resource store_stats\<close>

record stats =
  total_products :: nat
  published_products :: nat
  draft_products :: nat
  count_missing_description :: nat
  count_missing_short_description :: nat
  count_missing_seo :: nat
  total_needing_optimization :: nat

text \<open>The body of the loop over the products: the counters by status, then the three
  counters of missing content.\<close>

definition count_product :: "pyval \<Rightarrow> stats \<Rightarrow> exn + stats" where
  "count_product product st =
     bind_exn (py_getitem product (ustr ''status'')) (\<lambda>status.
     let st = (if status = PStr (ustr ''publish'')
               then st\<lparr>published_products := published_products st + 1\<rparr>
               else if status = PStr (ustr ''draft'')
               then st\<lparr>draft_products := draft_products st + 1\<rparr>
               else st) in
     bind_exn (blank_field product ''description'') (\<lambda>no_description.
     bind_exn (blank_field product ''short_description'') (\<lambda>no_short_description.
     bind_exn (seo_missing product) (\<lambda>no_seo.
       Inr (st\<lparr>count_missing_description :=
                   count_missing_description st + (if no_description then 1 else 0),
                 count_missing_short_description :=
                   count_missing_short_description st + (if no_short_description then 1 else 0),
                 count_missing_seo := count_missing_seo st + (if no_seo then 1 else 0)\<rparr>)))))"

text \<open>
  \<open>any(item['key'] == K and item.get('value') for item in meta_data)\<close>: true at the first
  item with key \<open>K\<close> and a true value; an item with key \<open>K\<close> and a false value does not
  end the search.
\<close>

fun any_meta_value :: "pystr \<Rightarrow> pyval list \<Rightarrow> exn + bool" where
  "any_meta_value K [] = Inr False"
| "any_meta_value K (item # items) =
     bind_exn (py_getitem item (ustr ''key'')) (\<lambda>k.
       if k = PStr K then
         bind_exn (py_get item (ustr ''value'') PNone) (\<lambda>v.
           if truthy v then Inr True else any_meta_value K items)
       else any_meta_value K items)"

definition has_seo :: "pystr \<Rightarrow> pyval \<Rightarrow> exn + bool" where
  "has_seo K product =
     bind_exn (py_get product (ustr ''meta_data'') (PList [])) (\<lambda>meta_data.
     bind_exn (py_iter meta_data) (any_meta_value K))"

text \<open>The condition of the comprehension that counts the products needing work; \<open>or\<close>
  evaluates its operands from the left and stops at the first true one.\<close>

definition needs_work :: "pyval \<Rightarrow> exn + bool" where
  "needs_work product =
     bind_exn (blank_field product ''description'') (\<lambda>no_description.
       if no_description then Inr True else
     bind_exn (blank_field product ''short_description'') (\<lambda>no_short_description.
       if no_short_description then Inr True else
     bind_exn (has_seo yoast_title product) (\<lambda>title.
       if \<not> title then Inr True else
     bind_exn (has_seo yoast_metadesc product) (\<lambda>metadesc. Inr (\<not> metadesc)))))"

text \<open>\<open>[i for i, product in enumerate(products) if ...]\<close>, counting from \<open>i\<close>.\<close>

fun needing_from :: "nat \<Rightarrow> pyval list \<Rightarrow> exn + nat list" where
  "needing_from i [] = Inr []"
| "needing_from i (product # products) =
     bind_exn (needs_work product) (\<lambda>b.
     bind_exn (needing_from (Suc i) products) (\<lambda>rest. Inr (if b then i # rest else rest)))"

definition store_stats_count :: "pyval \<Rightarrow> exn + stats" where
  "store_stats_count products =
     bind_exn (py_len products) (\<lambda>total.
     bind_exn (py_iter products) (\<lambda>ps.
     bind_exn (fold_exn count_product ps
                 \<lparr>total_products = total, published_products = 0, draft_products = 0,
                  count_missing_description = 0, count_missing_short_description = 0,
                  count_missing_seo = 0, total_needing_optimization = 0\<rparr>) (\<lambda>st.
     bind_exn (needing_from 0 ps) (\<lambda>indices.
       Inr (st\<lparr>total_needing_optimization := length (remdups indices)\<rparr>)))))"

definition optimization_percentage :: "stats \<Rightarrow> rat" where
  "optimization_percentage st =
     (if total_products st > 0
      then (of_nat (total_products st) - of_nat (total_needing_optimization st))
             / of_nat (total_products st) * 100
      else 100)"

definition priority_actions :: "stats \<Rightarrow> pystr" where
  "priority_actions st =
     (if total_needing_optimization st > 0 then
        ustr ''  '' @ [0x2022] @ ustr '' '' @ str_nat (total_needing_optimization st) @
        ustr '' products need content optimization'' @ nl
      else []) @
     (if count_missing_seo st > 0 then
        ustr ''  '' @ [0x2022] @ ustr '' '' @ str_nat (count_missing_seo st) @
        ustr '' products missing SEO metadata'' @ nl
      else []) @
     (if count_missing_description st > 0 then
        ustr ''  '' @ [0x2022] @ ustr '' '' @ str_nat (count_missing_description st) @
        ustr '' products need descriptions'' @ nl
      else []) @
     (if total_needing_optimization st = 0 then
        ustr ''  '' @ [0x2022] @ ustr '' All products are well-optimized! '' @ [0x1F389] @ nl
      else [])"

definition store_stats_text :: "env \<Rightarrow> stats \<Rightarrow> pyval \<Rightarrow> exn + pystr" where
  "store_stats_text E st categories =
     bind_exn (py_len categories) (\<lambda>total_categories.
       Inr (ustr ''WooCommerce Store Statistics'' @ nl @
            ustr ''        ==============================='' @ nl @ nl @
            ustr ''        '' @ [0x1F4CA] @ ustr '' Product Overview:'' @ nl @
            ustr ''          Total Products: '' @ str_nat (total_products st) @ nl @
            ustr ''          Published: '' @ str_nat (published_products st) @ nl @
            ustr ''          Drafts: '' @ str_nat (draft_products st) @ nl @ nl @
            ustr ''        '' @ [0x1F527] @ ustr '' Optimization Opportunities:'' @ nl @
            ustr ''          Products Needing Work: '' @
              str_nat (total_needing_optimization st) @ nl @
            ustr ''          Missing Descriptions: '' @ str_nat (count_missing_description st) @ nl @
            ustr ''          Missing Short Descriptions: '' @
              str_nat (count_missing_short_description st) @ nl @
            ustr ''          Missing SEO Data: '' @ str_nat (count_missing_seo st) @ nl @ nl @
            ustr ''        '' @ [0x1F4C1] @ ustr '' Categories:'' @ nl @
            ustr ''          Total Categories: '' @ str_nat total_categories @ nl @ nl @
            ustr ''        '' @ [0x1F3AF] @ ustr '' Priority Actions:'' @ nl @
            ustr ''        '' @
            priority_actions st @
            nl @ [0x1F4C8] @ ustr '' Store Optimization Score: '' @
            format_1f E (optimization_percentage st) @ ustr ''%''))"

text \<open>The statements under the \<open>try\<close> of \<open>store_stats\<close>.\<close>

definition store_stats_body :: "env \<Rightarrow> pystr io" where
  "store_stats_body E =
     bind_io (get_woo_client E) (\<lambda>client.
      bind_io (client_call E (GetProducts [(ustr ''per_page'', PInt 100)])) (\<lambda>products.
      bind_io (client_call E (GetCategories [(ustr ''per_page'', PInt 100)])) (\<lambda>categories.
      pure_io (bind_exn (store_stats_count products) (\<lambda>st.
               store_stats_text E st categories)))))"

definition store_stats :: "env \<Rightarrow> pystr io" where
  "store_stats E =
     try_except (store_stats_body E)
       (\<lambda>e. ustr ''Error fetching store statistics: '' @ str_exn e)"

section \<open>The bulk update as its description has it\<close>

text \<open>
  The plan for one request, written from the description of the planner and not from
  the loop: a request with no product id, or with one that \<open>int\<close> rejects, gives an error
  entry and no call; the payload holds the fields \<open>description\<close> and
  \<open>short_description\<close> that are present and, when \<open>meta_title\<close> or \<open>meta_description\<close> is
  present, the SEO entries under \<open>meta_data\<close>; an empty payload gives the error entry
  \<open>No update data\<close> and no call; otherwise the store is called once, and the entry is a
  success with the name of the returned product, or an error with the message of the
  failure. \<open>plan_requests\<close> plans the requests one after the other, each from the
  state the earlier ones left, and keeps every entry; \<open>successes\<close> and \<open>failures\<close> are
  the texts of the two kinds, in order.
\<close>

definition present :: "pydict \<Rightarrow> string \<Rightarrow> (pyval \<Rightarrow> 'a) \<Rightarrow> 'a list" where
  "present request key f = (case map_of request (ustr key) of None \<Rightarrow> [] | Some v \<Rightarrow> [f v])"

definition request_payload :: "pydict \<Rightarrow> pydict" where
  "request_payload request =
     present request ''description'' (\<lambda>v. (ustr ''description'', v)) @
     present request ''short_description'' (\<lambda>v. (ustr ''short_description'', v)) @
     (case present request ''meta_title'' (meta_entry (ustr ''_yoast_wpseo_title'')) @
           present request ''meta_description'' (meta_entry (ustr ''_yoast_wpseo_metadesc'')) of
        [] \<Rightarrow> []
      | m # ms \<Rightarrow> [(ustr ''meta_data'', PList (m # ms))])"

definition error_entry :: "env \<Rightarrow> pyval \<Rightarrow> exn \<Rightarrow> entry" where
  "error_entry E given_id e =
     Failed (ustr ''Failed to update product ID '' @ py_str E given_id @ ustr '': '' @ str_exn e)"

definition plan_request :: "env \<Rightarrow> pydict \<Rightarrow> world \<Rightarrow> entry \<times> world" where
  "plan_request E request w =
     (case map_of request (ustr ''product_id'') of
        None \<Rightarrow> (Failed (ustr ''Missing product_id in update''), w)
      | Some given_id \<Rightarrow>
          (case py_int E given_id of
             Inl e \<Rightarrow> (error_entry E given_id e, w)
           | Inr product_id \<Rightarrow>
               if request_payload request = [] then
                 (Failed (ustr ''No update data for product ID '' @ str_int product_id), w)
               else
                 (case client_call E (UpdateProduct product_id (request_payload request)) w of
                    (Inl e, w') \<Rightarrow> (error_entry E given_id e, w')
                  | (Inr product, w') \<Rightarrow>
                      (case py_getitem product (ustr ''name'') of
                         Inl e \<Rightarrow> (error_entry E given_id e, w')
                       | Inr name \<Rightarrow>
                           (Updated ([0x2705] @ ustr '' Updated product ID '' @
                                     str_int product_id @ ustr '': '' @ py_str E name), w')))))"

fun plan_requests :: "env \<Rightarrow> pydict list \<Rightarrow> world \<Rightarrow> entry list \<times> world" where
  "plan_requests E [] w = ([], w)"
| "plan_requests E (request # requests) w =
     (case plan_request E request w of
        (r, w') \<Rightarrow> (case plan_requests E requests w' of (rs, w'') \<Rightarrow> (r # rs, w'')))"

definition successes :: "entry list \<Rightarrow> pystr list" where
  "successes rs = concat (map (\<lambda>r. case r of Updated s \<Rightarrow> [s] | Failed s \<Rightarrow> []) rs)"

definition failures :: "entry list \<Rightarrow> pystr list" where
  "failures rs = concat (map (\<lambda>r. case r of Updated s \<Rightarrow> [] | Failed s \<Rightarrow> [s]) rs)"

section \<open>Sample environments and inputs\<close>

text \<open>A store that answers every request with status 200 and a product named \<open>Mug\<close>, a
  configuration that loads, and a process that has not built its client yet.\<close>

definition mug :: pyval where
  "mug = PDict [(ustr ''id'', PInt 7), (ustr ''name'', PStr (ustr ''Mug''))]"

definition sample_env :: env where
  "sample_env =
     \<lparr>repr = (\<lambda>v. ustr ''...''), format_1f = (\<lambda>r. ustr ''...''),
      lower_other = (\<lambda>s. s), int_other = (\<lambda>s. Inl (ValueError (ustr ''...''))),
      new_client = None,
      api = (\<lambda>history c. Inr \<lparr>status_code = 200, json = Inr mug, body_text = []\<rparr>)\<rparr>"

definition fresh :: world where
  "fresh = \<lparr>client_ready = False, calls = []\<rparr>"

section \<open>Reading the image audit image by image\<close>

text \<open>
  What the audit is to find for one image, in the words of its description: the alt
  text, stripped, falls under the first of four cases that applies (missing; shorter
  than ten characters; the product name up to case, that is, with the same
  \<open>str.lower()\<close>; good), which gives one finding; the name, stripped, gives an issue of
  its own when it is empty or, lowered, one of the four generic names.
  \<open>image_texts\<close> reads the two texts of an image whose \<open>alt\<close> and \<open>name\<close> are strings
  or absent.
\<close>

datatype finding = Issue pystr | GoodPractice pystr

definition alt_finding :: "env \<Rightarrow> pystr \<Rightarrow> nat \<Rightarrow> pystr \<Rightarrow> finding" where
  "alt_finding E product_name image_num alt =
     (if strip alt = [] then
        Issue ([0x274C] @ ustr '' Image '' @ str_nat image_num @ ustr '' missing alt text'')
      else if length (strip alt) < 10 then
        Issue (warning_sign @ ustr '' Image '' @ str_nat image_num @
               ustr '' alt text too short: '' @ quoted (strip alt))
      else if lower E (strip alt) = lower E product_name then
        Issue (warning_sign @ ustr '' Image '' @ str_nat image_num @
               ustr '' alt text is just product name'')
      else GoodPractice ([0x2705] @ ustr '' Image '' @ str_nat image_num @
                         ustr '' has good alt text''))"

definition name_finding :: "env \<Rightarrow> nat \<Rightarrow> pystr \<Rightarrow> pystr list" where
  "name_finding E image_num name_text =
     (if strip name_text = [] \<or> lower E (strip name_text) \<in> set generic_names
      then [warning_sign @ ustr '' Image '' @ str_nat image_num @
            ustr '' has generic or missing name'']
      else [])"

definition issue_of :: "finding \<Rightarrow> pystr list" where
  "issue_of f = (case f of Issue s \<Rightarrow> [s] | GoodPractice s \<Rightarrow> [])"

definition good_of :: "finding \<Rightarrow> pystr list" where
  "good_of f = (case f of Issue s \<Rightarrow> [] | GoodPractice s \<Rightarrow> [s])"

definition text_field :: "pyval \<Rightarrow> string \<Rightarrow> pystr option" where
  "text_field obj key =
     (case obj of
        PDict d \<Rightarrow>
          (case map_of d (ustr key) of
             None \<Rightarrow> Some []
           | Some (PStr s) \<Rightarrow> Some s
           | Some _ \<Rightarrow> None)
      | _ \<Rightarrow> None)"

definition image_texts :: "pyval \<Rightarrow> (pystr \<times> pystr) option" where
  "image_texts img =
     (case (text_field img ''alt'', text_field img ''name'') of
        (Some alt, Some name_text) \<Rightarrow> Some (alt, name_text)
      | _ \<Rightarrow> None)"

definition image_issues :: "env \<Rightarrow> pystr \<Rightarrow> nat \<times> pystr \<times> pystr \<Rightarrow> pystr list" where
  "image_issues E product_name x =
     (case x of (image_num, alt, name_text) \<Rightarrow>
        issue_of (alt_finding E product_name image_num alt) @ name_finding E image_num name_text)"

definition image_good :: "env \<Rightarrow> pystr \<Rightarrow> nat \<times> pystr \<times> pystr \<Rightarrow> pystr list" where
  "image_good E product_name x =
     (case x of (image_num, alt, name_text) \<Rightarrow> good_of (alt_finding E product_name image_num alt))"

text \<open>The image of the example: alt text \<open>Red Mug\<close>, name \<open>img\<close>.\<close>

definition red_mug_image :: pyval where
  "red_mug_image = PDict [(ustr ''alt'', PStr (ustr ''Red Mug'')), (ustr ''name'', PStr (ustr ''img''))]"

definition issues_of :: "exn + audit \<Rightarrow> pystr list" where
  "issues_of r = (case r of Inl e \<Rightarrow> [] | Inr a \<Rightarrow> issues a)"

section \<open>Sample products\<close>

text \<open>A product with a description, a short description and three SEO entries, of which
  the first has the title key and an empty value and the second the title key again.\<close>

definition dup_meta_product :: pyval where
  "dup_meta_product =
     PDict [(ustr ''id'', PInt 7), (ustr ''name'', PStr (ustr ''Mug'')),
            (ustr ''status'', PStr (ustr ''publish'')),
            (ustr ''description'', PStr (ustr ''A red mug'')),
            (ustr ''short_description'', PStr (ustr ''Mug'')),
            (ustr ''meta_data'',
               PList [meta_entry yoast_title (PStr []),
                      meta_entry yoast_title (PStr (ustr ''Red Mug'')),
                      meta_entry yoast_metadesc (PStr (ustr ''A mug''))])]"

text \<open>A product with no \<open>description\<close> key, and a store that answers every request with
  status 200 and a given value.\<close>

definition no_description_product :: pyval where
  "no_description_product =
     PDict [(ustr ''id'', PInt 7), (ustr ''name'', PStr (ustr ''Mug'')),
            (ustr ''status'', PStr (ustr ''publish'')), (ustr ''price'', PStr (ustr ''12.00'')),
            (ustr ''stock_status'', PStr (ustr ''instock'')),
            (ustr ''short_description'', PStr (ustr ''A mug''))]"

definition store_answering :: "pyval \<Rightarrow> env" where
  "store_answering v =
     sample_env\<lparr>api := (\<lambda>history c. Inr \<lparr>status_code = 200, json = Inr v, body_text = []\<rparr>)\<rparr>"

section \<open>Payloads with an empty string\<close>

text \<open>Whether an empty string occurs in a value, at any depth; and an environment in
  which the configuration file is missing, so that \<open>WooClient()\<close> raises.\<close>

fun has_empty_str :: "pyval \<Rightarrow> bool" where
  "has_empty_str (PStr s) = (s = [])"
| "has_empty_str (PList xs) = list_ex has_empty_str xs"
| "has_empty_str (PDict d) = list_ex (\<lambda>kv. has_empty_str (snd kv)) d"
| "has_empty_str v = False"

definition broken_env :: env where
  "broken_env =
     sample_env\<lparr>new_client := Some (OtherError (ustr ''Configuration file not found: config.json''))\<rparr>"


text \<open>An environment in which the store answers every request with status 503.\<close>

definition down_env :: env where
  "down_env =
     sample_env\<lparr>api := (\<lambda>history c.
        Inr \<lparr>status_code = 503, json = Inl (ValueError (ustr ''Expecting value'')),
             body_text = ustr ''Service Unavailable''\<rparr>)\<rparr>"

section \<open>Properties\<close>

text \<open>The equations that evaluate the model on a concrete input.\<close>

lemmas py_eval =
  ustr_def bind_exn_def bind_io_def pure_io_def try_except_def quoted_def nl_def
  strip_def is_space_def is_ascii_def lower_def lower_ascii_def replace_space_dash_def
  ascii_space_def ascii_strip_def is_digit_def unsigned_of_str_def ascii_int_def int_of_str_def
  meta_entry_def yoast_title_def yoast_metadesc_def has_key_def dict_get_def
  seo_lookup_def seo_missing_def blank_field_def has_seo_def needs_work_def count_product_def
  store_stats_count_def no_attribute_def missing_content_def field_line_def product_block_def
  get_products_text_def get_products_def get_products_body_def get_products_params_def
  get_woo_client_def client_call_def of_opt_str_def of_opt_int_def str_nat_def str_int_def
  dec_digits.simps generic_names_def warning_sign_def empty_audit_def
  sample_env_def fresh_def mug_def

subsection \<open>The function bodies under try and except\<close>

lemma try_except_result:
  "fst (try_except body handler w) =
     Inr (case fst (body w) of Inr t \<Rightarrow> t | Inl e \<Rightarrow> handler e)"
  by (cases "body w") (auto simp: try_except_def split: sum.splits)

text \<open>When the client cannot be built, the first statement of every body raises.\<close>

lemma client_failure_text:
  assumes "\<not> client_ready w \<and> new_client E = Some e"
  shows "fst (get_products E status category per_page w) =
           Inr (ustr ''Error fetching products: '' @ str_exn e) \<and>
         fst (get_product_by_id E product_id w) =
           Inr (ustr ''Error fetching product: '' @ str_exn e) \<and>
         fst (update_product E product_id description short_description meta_title
                meta_description w) =
           Inr (ustr ''Error updating product: '' @ str_exn e) \<and>
         fst (analyze_products E per_page w) =
           Inr (ustr ''Error analyzing products: '' @ str_exn e) \<and>
         fst (bulk_update_products E updates w) =
           Inr (ustr ''Error in bulk update: '' @ str_exn e) \<and>
         fst (audit_product_images E product_id w) =
           Inr (ustr ''Error auditing product images: '' @ str_exn e) \<and>
         fst (store_stats E w) =
           Inr (ustr ''Error fetching store statistics: '' @ str_exn e)"
  using assms
  by (simp add: get_products_def get_product_by_id_def update_product_def
      analyze_products_def bulk_update_products_def audit_product_images_def store_stats_def
      get_products_body_def get_product_by_id_body_def update_product_body_def
      analyze_products_body_def bulk_update_products_body_def audit_product_images_body_def
      store_stats_body_def try_except_def bind_io_def get_woo_client_def)

text \<open>When the client is at hand and its method raises, the operation that called it
  returns the text of its handler with the message.\<close>

lemma fetch_products_failure_text:
  assumes "fst (get_woo_client E w) = Inr () \<and>
           fst (client_call E (GetProducts (get_products_params status category per_page))
                  (snd (get_woo_client E w))) = Inl e"
  shows "fst (get_products E status category per_page w) =
           Inr (ustr ''Error fetching products: '' @ str_exn e)"
  using assms
  by (cases "get_woo_client E w";
      cases "client_call E (GetProducts (get_products_params status category per_page))
               (snd (get_woo_client E w))")
     (simp add: get_products_def get_products_body_def try_except_def bind_io_def)

lemma fetch_product_failure_text:
  assumes "fst (get_woo_client E w) = Inr () \<and>
           fst (client_call E (GetProductById product_id) (snd (get_woo_client E w))) = Inl e"
  shows "fst (get_product_by_id E product_id w) =
           Inr (ustr ''Error fetching product: '' @ str_exn e) \<and>
         fst (audit_product_images E product_id w) =
           Inr (ustr ''Error auditing product images: '' @ str_exn e)"
  using assms
  by (cases "get_woo_client E w";
      cases "client_call E (GetProductById product_id) (snd (get_woo_client E w))")
     (simp add: get_product_by_id_def get_product_by_id_body_def audit_product_images_def
        audit_product_images_body_def try_except_def bind_io_def)

lemma analyze_failure_text:
  assumes "fst (get_woo_client E w) = Inr () \<and>
           fst (client_call E (GetProducts [(ustr ''per_page'', PInt (min per_page 100))])
                  (snd (get_woo_client E w))) = Inl e"
  shows "fst (analyze_products E per_page w) =
           Inr (ustr ''Error analyzing products: '' @ str_exn e)"
  using assms
  by (cases "get_woo_client E w";
      cases "client_call E (GetProducts [(ustr ''per_page'', PInt (min per_page 100))])
               (snd (get_woo_client E w))")
     (simp add: analyze_products_def analyze_products_body_def try_except_def bind_io_def)

lemma stats_failure_text:
  assumes "fst (get_woo_client E w) = Inr () \<and>
           fst (client_call E (GetProducts [(ustr ''per_page'', PInt 100)])
                  (snd (get_woo_client E w))) = Inl e"
  shows "fst (store_stats E w) = Inr (ustr ''Error fetching store statistics: '' @ str_exn e)"
  using assms
  by (cases "get_woo_client E w";
      cases "client_call E (GetProducts [(ustr ''per_page'', PInt 100)])
               (snd (get_woo_client E w))")
     (simp add: store_stats_def store_stats_body_def try_except_def bind_io_def)

lemma update_failure_text:
  assumes "fst (get_woo_client E w) = Inr () \<and>
           update_product_data description short_description meta_title meta_description \<noteq> [] \<and>
           fst (client_call E
                  (UpdateProduct product_id
                     (update_product_data description short_description meta_title
                        meta_description))
                  (snd (get_woo_client E w))) = Inl e"
  shows "fst (update_product E product_id description short_description meta_title
                meta_description w) =
           Inr (ustr ''Error updating product: '' @ str_exn e)"
  using assms
  by (cases "get_woo_client E w";
      cases "client_call E
               (UpdateProduct product_id
                  (update_product_data description short_description meta_title
                     meta_description))
               (snd (get_woo_client E w))")
     (simp add: update_product_def update_product_body_def try_except_def bind_io_def Let_def)

text \<open>
  C3. Each of the seven public operations returns a text, whatever its arguments, the
  state of the process and the behaviour of the store and of the client constructor:
  the text its body returns, or, when any statement of its body raises \<open>e\<close>, the text of
  its own handler followed by \<open>str(e)\<close>. In particular this is the text returned when
  the client cannot be built, and when the client is at hand and its method raises
  (no connection, a status other than 200, a body that is not JSON). (The handler is
  \<open>except Exception\<close>; the exceptions of the model are of that class.)
\<close>

theorem tools_never_raise:
  "(fst (get_products E status category per_page w) =
      Inr (case fst (get_products_body E status category per_page w) of
             Inr t \<Rightarrow> t | Inl x \<Rightarrow> ustr ''Error fetching products: '' @ str_exn x) \<and>
    fst (get_product_by_id E product_id w) =
      Inr (case fst (get_product_by_id_body E product_id w) of
             Inr t \<Rightarrow> t | Inl x \<Rightarrow> ustr ''Error fetching product: '' @ str_exn x) \<and>
    fst (update_product E product_id description short_description meta_title
           meta_description w) =
      Inr (case fst (update_product_body E product_id description short_description
                       meta_title meta_description w) of
             Inr t \<Rightarrow> t | Inl x \<Rightarrow> ustr ''Error updating product: '' @ str_exn x) \<and>
    fst (analyze_products E per_page w) =
      Inr (case fst (analyze_products_body E per_page w) of
             Inr t \<Rightarrow> t | Inl x \<Rightarrow> ustr ''Error analyzing products: '' @ str_exn x) \<and>
    fst (bulk_update_products E updates w) =
      Inr (case fst (bulk_update_products_body E updates w) of
             Inr t \<Rightarrow> t | Inl x \<Rightarrow> ustr ''Error in bulk update: '' @ str_exn x) \<and>
    fst (audit_product_images E product_id w) =
      Inr (case fst (audit_product_images_body E product_id w) of
             Inr t \<Rightarrow> t | Inl x \<Rightarrow> ustr ''Error auditing product images: '' @ str_exn x) \<and>
    fst (store_stats E w) =
      Inr (case fst (store_stats_body E w) of
             Inr t \<Rightarrow> t | Inl x \<Rightarrow> ustr ''Error fetching store statistics: '' @ str_exn x)) \<and>
   (\<not> client_ready w \<and> new_client E = Some e \<longrightarrow>
      fst (get_products E status category per_page w) =
        Inr (ustr ''Error fetching products: '' @ str_exn e) \<and>
      fst (get_product_by_id E product_id w) =
        Inr (ustr ''Error fetching product: '' @ str_exn e) \<and>
      fst (update_product E product_id description short_description meta_title
             meta_description w) =
        Inr (ustr ''Error updating product: '' @ str_exn e) \<and>
      fst (analyze_products E per_page w) =
        Inr (ustr ''Error analyzing products: '' @ str_exn e) \<and>
      fst (bulk_update_products E updates w) =
        Inr (ustr ''Error in bulk update: '' @ str_exn e) \<and>
      fst (audit_product_images E product_id w) =
        Inr (ustr ''Error auditing product images: '' @ str_exn e) \<and>
      fst (store_stats E w) =
        Inr (ustr ''Error fetching store statistics: '' @ str_exn e)) \<and>
   (fst (get_woo_client E w) = Inr () \<and>
    fst (client_call E (GetProducts (get_products_params status category per_page))
           (snd (get_woo_client E w))) = Inl e \<longrightarrow>
      fst (get_products E status category per_page w) =
        Inr (ustr ''Error fetching products: '' @ str_exn e)) \<and>
   (fst (get_woo_client E w) = Inr () \<and>
    fst (client_call E (GetProductById product_id) (snd (get_woo_client E w))) = Inl e \<longrightarrow>
      fst (get_product_by_id E product_id w) =
        Inr (ustr ''Error fetching product: '' @ str_exn e) \<and>
      fst (audit_product_images E product_id w) =
        Inr (ustr ''Error auditing product images: '' @ str_exn e)) \<and>
   (fst (get_woo_client E w) = Inr () \<and>
    fst (client_call E (GetProducts [(ustr ''per_page'', PInt (min per_page 100))])
           (snd (get_woo_client E w))) = Inl e \<longrightarrow>
      fst (analyze_products E per_page w) =
        Inr (ustr ''Error analyzing products: '' @ str_exn e)) \<and>
   (fst (get_woo_client E w) = Inr () \<and>
    fst (client_call E (GetProducts [(ustr ''per_page'', PInt 100)])
           (snd (get_woo_client E w))) = Inl e \<longrightarrow>
      fst (store_stats E w) = Inr (ustr ''Error fetching store statistics: '' @ str_exn e)) \<and>
   (fst (get_woo_client E w) = Inr () \<and>
    update_product_data description short_description meta_title meta_description \<noteq> [] \<and>
    fst (client_call E
           (UpdateProduct product_id
              (update_product_data description short_description meta_title meta_description))
           (snd (get_woo_client E w))) = Inl e \<longrightarrow>
      fst (update_product E product_id description short_description meta_title
             meta_description w) =
        Inr (ustr ''Error updating product: '' @ str_exn e))"
proof (intro conjI impI)
  show "fst (get_products E status category per_page w) =
      Inr (case fst (get_products_body E status category per_page w) of
             Inr t \<Rightarrow> t | Inl x \<Rightarrow> ustr ''Error fetching products: '' @ str_exn x)"
    unfolding get_products_def by (rule try_except_result)
  show "fst (get_product_by_id E product_id w) =
      Inr (case fst (get_product_by_id_body E product_id w) of
             Inr t \<Rightarrow> t | Inl x \<Rightarrow> ustr ''Error fetching product: '' @ str_exn x)"
    unfolding get_product_by_id_def by (rule try_except_result)
  show "fst (update_product E product_id description short_description meta_title
           meta_description w) =
      Inr (case fst (update_product_body E product_id description short_description
                       meta_title meta_description w) of
             Inr t \<Rightarrow> t | Inl x \<Rightarrow> ustr ''Error updating product: '' @ str_exn x)"
    unfolding update_product_def by (rule try_except_result)
  show "fst (analyze_products E per_page w) =
      Inr (case fst (analyze_products_body E per_page w) of
             Inr t \<Rightarrow> t | Inl x \<Rightarrow> ustr ''Error analyzing products: '' @ str_exn x)"
    unfolding analyze_products_def by (rule try_except_result)
  show "fst (bulk_update_products E updates w) =
      Inr (case fst (bulk_update_products_body E updates w) of
             Inr t \<Rightarrow> t | Inl x \<Rightarrow> ustr ''Error in bulk update: '' @ str_exn x)"
    unfolding bulk_update_products_def by (rule try_except_result)
  show "fst (audit_product_images E product_id w) =
      Inr (case fst (audit_product_images_body E product_id w) of
             Inr t \<Rightarrow> t | Inl x \<Rightarrow> ustr ''Error auditing product images: '' @ str_exn x)"
    unfolding audit_product_images_def by (rule try_except_result)
  show "fst (store_stats E w) =
      Inr (case fst (store_stats_body E w) of
             Inr t \<Rightarrow> t | Inl x \<Rightarrow> ustr ''Error fetching store statistics: '' @ str_exn x)"
    unfolding store_stats_def by (rule try_except_result)
next
  assume h: "\<not> client_ready w \<and> new_client E = Some e"
  note all = client_failure_text [OF h, of status category per_page product_id description
      short_description meta_title meta_description updates]
  from all show "fst (get_products E status category per_page w) =
        Inr (ustr ''Error fetching products: '' @ str_exn e)" by blast
  from all show "fst (get_product_by_id E product_id w) =
        Inr (ustr ''Error fetching product: '' @ str_exn e)" by blast
  from all show "fst (update_product E product_id description short_description meta_title
             meta_description w) =
        Inr (ustr ''Error updating product: '' @ str_exn e)" by blast
  from all show "fst (analyze_products E per_page w) =
        Inr (ustr ''Error analyzing products: '' @ str_exn e)" by blast
  from all show "fst (bulk_update_products E updates w) =
        Inr (ustr ''Error in bulk update: '' @ str_exn e)" by blast
  from all show "fst (audit_product_images E product_id w) =
        Inr (ustr ''Error auditing product images: '' @ str_exn e)" by blast
  from all show "fst (store_stats E w) =
        Inr (ustr ''Error fetching store statistics: '' @ str_exn e)" by blast
next
  assume "fst (get_woo_client E w) = Inr () \<and>
    fst (client_call E (GetProducts (get_products_params status category per_page))
           (snd (get_woo_client E w))) = Inl e"
  then show "fst (get_products E status category per_page w) =
        Inr (ustr ''Error fetching products: '' @ str_exn e)"
    by (rule fetch_products_failure_text)
next
  assume h: "fst (get_woo_client E w) = Inr () \<and>
    fst (client_call E (GetProductById product_id) (snd (get_woo_client E w))) = Inl e"
  from fetch_product_failure_text [OF h]
  show "fst (get_product_by_id E product_id w) =
        Inr (ustr ''Error fetching product: '' @ str_exn e)" by blast
  from fetch_product_failure_text [OF h]
  show "fst (audit_product_images E product_id w) =
        Inr (ustr ''Error auditing product images: '' @ str_exn e)" by blast
next
  assume "fst (get_woo_client E w) = Inr () \<and>
    fst (client_call E (GetProducts [(ustr ''per_page'', PInt (min per_page 100))])
           (snd (get_woo_client E w))) = Inl e"
  then show "fst (analyze_products E per_page w) =
        Inr (ustr ''Error analyzing products: '' @ str_exn e)"
    by (rule analyze_failure_text)
next
  assume "fst (get_woo_client E w) = Inr () \<and>
    fst (client_call E (GetProducts [(ustr ''per_page'', PInt 100)])
           (snd (get_woo_client E w))) = Inl e"
  then show "fst (store_stats E w) = Inr (ustr ''Error fetching store statistics: '' @ str_exn e)"
    by (rule stats_failure_text)
next
  assume "fst (get_woo_client E w) = Inr () \<and>
    update_product_data description short_description meta_title meta_description \<noteq> [] \<and>
    fst (client_call E
           (UpdateProduct product_id
              (update_product_data description short_description meta_title meta_description))
           (snd (get_woo_client E w))) = Inl e"
  then show "fst (update_product E product_id description short_description meta_title
             meta_description w) =
        Inr (ustr ''Error updating product: '' @ str_exn e)"
    by (rule update_failure_text)
qed

theorem tools_never_raise_witness:
  "fst (get_products broken_env None None 10 fresh) =
     Inr (ustr ''Error fetching products: '' @
          str_exn (OtherError (ustr ''Configuration file not found: config.json''))) \<and>
   fst (get_product_by_id broken_env 7 fresh) =
     Inr (ustr ''Error fetching product: '' @
          str_exn (OtherError (ustr ''Configuration file not found: config.json''))) \<and>
   fst (update_product broken_env 7 (Some (ustr ''A red mug'')) None None None fresh) =
     Inr (ustr ''Error updating product: '' @
          str_exn (OtherError (ustr ''Configuration file not found: config.json''))) \<and>
   fst (analyze_products broken_env 10 fresh) =
     Inr (ustr ''Error analyzing products: '' @
          str_exn (OtherError (ustr ''Configuration file not found: config.json''))) \<and>
   fst (bulk_update_products broken_env [] fresh) =
     Inr (ustr ''Error in bulk update: '' @
          str_exn (OtherError (ustr ''Configuration file not found: config.json''))) \<and>
   fst (audit_product_images broken_env 7 fresh) =
     Inr (ustr ''Error auditing product images: '' @
          str_exn (OtherError (ustr ''Configuration file not found: config.json''))) \<and>
   fst (store_stats broken_env fresh) =
     Inr (ustr ''Error fetching store statistics: '' @
          str_exn (OtherError (ustr ''Configuration file not found: config.json''))) \<and>
   fst (get_products down_env None None 10 fresh) =
     Inr (ustr ''Error fetching products: '' @
          str_exn (OtherError (ustr ''API request failed: 503 - Service Unavailable''))) \<and>
   fst (get_product_by_id down_env 7 fresh) =
     Inr (ustr ''Error fetching product: '' @
          str_exn (OtherError (ustr ''API request failed: 503 - Service Unavailable''))) \<and>
   fst (audit_product_images down_env 7 fresh) =
     Inr (ustr ''Error auditing product images: '' @
          str_exn (OtherError (ustr ''API request failed: 503 - Service Unavailable''))) \<and>
   fst (analyze_products down_env 10 fresh) =
     Inr (ustr ''Error analyzing products: '' @
          str_exn (OtherError (ustr ''API request failed: 503 - Service Unavailable''))) \<and>
   fst (store_stats down_env fresh) =
     Inr (ustr ''Error fetching store statistics: '' @
          str_exn (OtherError (ustr ''API request failed: 503 - Service Unavailable''))) \<and>
   fst (update_product down_env 7 (Some (ustr ''A red mug'')) None None None fresh) =
     Inr (ustr ''Error updating product: '' @
          str_exn (OtherError (ustr ''API request failed: 503 - Service Unavailable'')))"
proof -
  let ?c = "OtherError (ustr ''Configuration file not found: config.json'')"
  let ?d = "OtherError (ustr ''API request failed: 503 - Service Unavailable'')"
  note broken = tools_never_raise [where E = broken_env and w = fresh and e = ?c
      and status = None and category = None and per_page = 10 and product_id = 7
      and description = "Some (ustr ''A red mug'')" and short_description = None
      and meta_title = None and meta_description = None and updates = "[]"]
  note down = tools_never_raise [where E = down_env and w = fresh and e = ?d
      and status = None and category = None and per_page = 10 and product_id = 7
      and description = "Some (ustr ''A red mug'')" and short_description = None
      and meta_title = None and meta_description = None and updates = "[]"]
  have no_client: "\<not> client_ready fresh \<and> new_client broken_env = Some ?c"
    by (simp add: broken_env_def py_eval)
  have client: "fst (get_woo_client down_env fresh) = Inr ()"
    by (simp add: down_env_def py_eval)
  have failing: "fst (client_call down_env c (snd (get_woo_client down_env fresh))) = Inl ?d" for c
    by (simp add: down_env_def py_eval)
  have payload: "update_product_data (Some (ustr ''A red mug'')) None None None \<noteq> []"
    by (simp add: update_product_data_def py_eval)
  from broken no_client have 1:
    "fst (get_products broken_env None None 10 fresh) =
       Inr (ustr ''Error fetching products: '' @ str_exn ?c) \<and>
     fst (get_product_by_id broken_env 7 fresh) =
       Inr (ustr ''Error fetching product: '' @ str_exn ?c) \<and>
     fst (update_product broken_env 7 (Some (ustr ''A red mug'')) None None None fresh) =
       Inr (ustr ''Error updating product: '' @ str_exn ?c) \<and>
     fst (analyze_products broken_env 10 fresh) =
       Inr (ustr ''Error analyzing products: '' @ str_exn ?c) \<and>
     fst (bulk_update_products broken_env [] fresh) =
       Inr (ustr ''Error in bulk update: '' @ str_exn ?c) \<and>
     fst (audit_product_images broken_env 7 fresh) =
       Inr (ustr ''Error auditing product images: '' @ str_exn ?c) \<and>
     fst (store_stats broken_env fresh) =
       Inr (ustr ''Error fetching store statistics: '' @ str_exn ?c)"
    by blast
  from down client failing payload have 2:
    "fst (get_products down_env None None 10 fresh) =
       Inr (ustr ''Error fetching products: '' @ str_exn ?d) \<and>
     fst (get_product_by_id down_env 7 fresh) =
       Inr (ustr ''Error fetching product: '' @ str_exn ?d) \<and>
     fst (audit_product_images down_env 7 fresh) =
       Inr (ustr ''Error auditing product images: '' @ str_exn ?d) \<and>
     fst (analyze_products down_env 10 fresh) =
       Inr (ustr ''Error analyzing products: '' @ str_exn ?d) \<and>
     fst (store_stats down_env fresh) =
       Inr (ustr ''Error fetching store statistics: '' @ str_exn ?d) \<and>
     fst (update_product down_env 7 (Some (ustr ''A red mug'')) None None None fresh) =
       Inr (ustr ''Error updating product: '' @ str_exn ?d)"
    by blast
  from 1 2 show ?thesis by blast
qed

subsection \<open>The bulk update\<close>

lemma bulk_update_data_payload: "bulk_update_data update = request_payload update"
  by (simp add: bulk_update_data_def request_payload_def present_def has_key_def dict_get_def
      meta_entry_def yoast_title_def yoast_metadesc_def update_conv' ustr_def Let_def
      split: option.splits)

text \<open>One pass of the loop does what the plan for its request says.\<close>

lemma bulk_one_plan: "bulk_one E update w = plan_request E update w"
proof (cases "map_of update (ustr ''product_id'')")
  case None
  then show ?thesis
    by (simp add: bulk_one_def bulk_try_def plan_request_def has_key_def pure_io_def)
next
  case (Some given_id)
  show ?thesis
  proof (cases "py_int E given_id")
    case (Inl e)
    with Some show ?thesis
      by (simp add: bulk_one_def bulk_try_def plan_request_def error_entry_def has_key_def
          dict_get_def pure_io_def bind_io_def)
  next
    case (Inr product_id)
    show ?thesis
    proof (cases "request_payload update = []")
      case True
      with Some Inr show ?thesis
        by (simp add: bulk_one_def bulk_try_def plan_request_def has_key_def dict_get_def
            pure_io_def bind_io_def bulk_update_data_payload)
    next
      case False
      obtain r w' where call:
        "client_call E (UpdateProduct product_id (request_payload update)) w = (r, w')"
        by (cases "client_call E (UpdateProduct product_id (request_payload update)) w")
      with Some Inr False show ?thesis
        by (cases r; cases "py_getitem (projr r) (ustr ''name'')")
           (simp_all add: bulk_one_def bulk_try_def plan_request_def error_entry_def has_key_def
              dict_get_def pure_io_def bind_io_def bind_exn_def bulk_update_data_payload)
    qed
  qed
qed

lemma length_plan_requests: "length (fst (plan_requests E updates w)) = length updates"
proof (induction updates arbitrary: w)
  case Nil
  show ?case by simp
next
  case (Cons update updates)
  obtain r w' where one: "plan_request E update w = (r, w')" by (cases "plan_request E update w")
  obtain rs w'' where rest: "plan_requests E updates w' = (rs, w'')"
    by (cases "plan_requests E updates w'")
  from Cons.IH [of w'] rest have "length rs = length updates" by simp
  with one rest show ?case by simp
qed

lemma bulk_loop_plan:
  "bulk_loop E updates (results, errors) w =
     ((results @ successes (fst (plan_requests E updates w)),
       errors @ failures (fst (plan_requests E updates w))),
      snd (plan_requests E updates w))"
proof (induction updates arbitrary: results errors w)
  case Nil
  show ?case by (simp add: successes_def failures_def)
next
  case (Cons update updates)
  obtain r w' where one: "plan_request E update w = (r, w')" by (cases "plan_request E update w")
  obtain rs w'' where rest: "plan_requests E updates w' = (rs, w'')"
    by (cases "plan_requests E updates w'")
  show ?case
  proof (cases r)
    case (Updated s)
    with one rest Cons.IH [of "results @ [s]" errors w'] show ?thesis
      by (simp add: bulk_one_plan append_entry_def successes_def failures_def)
  next
    case (Failed s)
    with one rest Cons.IH [of results "errors @ [s]" w'] show ?thesis
      by (simp add: bulk_one_plan append_entry_def successes_def failures_def)
  qed
qed

lemma successes_failures_length: "length (successes rs) + length (failures rs) = length rs"
  by (induction rs) (auto simp: successes_def failures_def split: entry.splits)

text \<open>The loop after one pass, by what the request of that pass is: no product id; a
  product id that \<open>int\<close> rejects; a request that the store fails; a request that the
  store updates.\<close>

lemma bulk_loop_missing_id:
  assumes "map_of update (ustr ''product_id'') = None"
  shows "bulk_loop E (update # rest) (results, errors) w =
           bulk_loop E rest (results, errors @ [ustr ''Missing product_id in update'']) w"
  using assms by (simp add: bulk_one_plan plan_request_def append_entry_def)

lemma bulk_loop_bad_id:
  assumes "map_of update (ustr ''product_id'') = Some given_id \<and> py_int E given_id = Inl e"
  shows "bulk_loop E (update # rest) (results, errors) w =
           bulk_loop E rest
             (results, errors @ [ustr ''Failed to update product ID '' @ py_str E given_id @
                                 ustr '': '' @ str_exn e]) w"
  using assms by (simp add: bulk_one_plan plan_request_def error_entry_def append_entry_def)

lemma bulk_loop_store_failure:
  assumes "map_of update (ustr ''product_id'') = Some given_id \<and>
           py_int E given_id = Inr product_id \<and> bulk_update_data update \<noteq> [] \<and>
           fst (client_call E (UpdateProduct product_id (bulk_update_data update)) w) = Inl e"
  shows "bulk_loop E (update # rest) (results, errors) w =
           bulk_loop E rest
             (results, errors @ [ustr ''Failed to update product ID '' @ py_str E given_id @
                                 ustr '': '' @ str_exn e])
             (snd (client_call E (UpdateProduct product_id (bulk_update_data update)) w))"
  using assms
  by (cases "client_call E (UpdateProduct product_id (bulk_update_data update)) w")
     (simp add: bulk_one_plan plan_request_def error_entry_def append_entry_def
        bulk_update_data_payload)

lemma bulk_loop_updated:
  assumes "map_of update (ustr ''product_id'') = Some given_id \<and>
           py_int E given_id = Inr product_id \<and> bulk_update_data update \<noteq> [] \<and>
           fst (client_call E (UpdateProduct product_id (bulk_update_data update)) w) =
             Inr product \<and>
           py_getitem product (ustr ''name'') = Inr name"
  shows "bulk_loop E (update # rest) (results, errors) w =
           bulk_loop E rest
             (results @ [[0x2705] @ ustr '' Updated product ID '' @ str_int product_id @
                         ustr '': '' @ py_str E name], errors)
             (snd (client_call E (UpdateProduct product_id (bulk_update_data update)) w))"
  using assms
  by (cases "client_call E (UpdateProduct product_id (bulk_update_data update)) w")
     (simp add: bulk_one_plan plan_request_def append_entry_def bulk_update_data_payload)

text \<open>
  C4. The loop of the bulk update does, request by request, what the plan of the
  description says: every request is planned, whatever the earlier ones gave, and the
  loop returns the success texts and the error texts of the entries as two lists, each
  in the order of the requests, which together have one entry for each request. A
  request with no product id, one whose product id \<open>int\<close> rejects and one that the store
  fails each add one entry to the errors, and the loop goes on with the remaining
  requests; a request that the store updates adds one entry to the successes.
\<close>

theorem bulk_partial_failure:
  "(bulk_loop E updates ([], []) w =
      ((successes (fst (plan_requests E updates w)),
        failures (fst (plan_requests E updates w))),
       snd (plan_requests E updates w)) \<and>
    length (fst (plan_requests E updates w)) = length updates \<and>
    length (successes (fst (plan_requests E updates w))) +
      length (failures (fst (plan_requests E updates w))) = length updates) \<and>
   (map_of update (ustr ''product_id'') = None \<longrightarrow>
      bulk_loop E (update # rest) (results, errors) w =
        bulk_loop E rest (results, errors @ [ustr ''Missing product_id in update'']) w) \<and>
   (map_of update (ustr ''product_id'') = Some given_id \<and> py_int E given_id = Inl e \<longrightarrow>
      bulk_loop E (update # rest) (results, errors) w =
        bulk_loop E rest
          (results, errors @ [ustr ''Failed to update product ID '' @ py_str E given_id @
                              ustr '': '' @ str_exn e]) w) \<and>
   (map_of update (ustr ''product_id'') = Some given_id \<and>
    py_int E given_id = Inr product_id \<and> bulk_update_data update \<noteq> [] \<and>
    fst (client_call E (UpdateProduct product_id (bulk_update_data update)) w) = Inl e \<longrightarrow>
      bulk_loop E (update # rest) (results, errors) w =
        bulk_loop E rest
          (results, errors @ [ustr ''Failed to update product ID '' @ py_str E given_id @
                              ustr '': '' @ str_exn e])
          (snd (client_call E (UpdateProduct product_id (bulk_update_data update)) w))) \<and>
   (map_of update (ustr ''product_id'') = Some given_id \<and>
    py_int E given_id = Inr product_id \<and> bulk_update_data update \<noteq> [] \<and>
    fst (client_call E (UpdateProduct product_id (bulk_update_data update)) w) = Inr product \<and>
    py_getitem product (ustr ''name'') = Inr name \<longrightarrow>
      bulk_loop E (update # rest) (results, errors) w =
        bulk_loop E rest
          (results @ [[0x2705] @ ustr '' Updated product ID '' @ str_int product_id @
                      ustr '': '' @ py_str E name], errors)
          (snd (client_call E (UpdateProduct product_id (bulk_update_data update)) w)))"
proof (intro conjI impI)
  show "bulk_loop E updates ([], []) w =
      ((successes (fst (plan_requests E updates w)),
        failures (fst (plan_requests E updates w))),
       snd (plan_requests E updates w))"
    using bulk_loop_plan [of E updates "[]" "[]" w] by simp
  show "length (fst (plan_requests E updates w)) = length updates"
    by (rule length_plan_requests)
  show "length (successes (fst (plan_requests E updates w))) +
      length (failures (fst (plan_requests E updates w))) = length updates"
    using length_plan_requests [of E updates w]
      successes_failures_length [of "fst (plan_requests E updates w)"]
    by simp
next
  assume "map_of update (ustr ''product_id'') = None"
  then show "bulk_loop E (update # rest) (results, errors) w =
        bulk_loop E rest (results, errors @ [ustr ''Missing product_id in update'']) w"
    by (rule bulk_loop_missing_id)
next
  assume "map_of update (ustr ''product_id'') = Some given_id \<and> py_int E given_id = Inl e"
  then show "bulk_loop E (update # rest) (results, errors) w =
        bulk_loop E rest
          (results, errors @ [ustr ''Failed to update product ID '' @ py_str E given_id @
                              ustr '': '' @ str_exn e]) w"
    by (rule bulk_loop_bad_id)
next
  assume "map_of update (ustr ''product_id'') = Some given_id \<and>
    py_int E given_id = Inr product_id \<and> bulk_update_data update \<noteq> [] \<and>
    fst (client_call E (UpdateProduct product_id (bulk_update_data update)) w) = Inl e"
  then show "bulk_loop E (update # rest) (results, errors) w =
        bulk_loop E rest
          (results, errors @ [ustr ''Failed to update product ID '' @ py_str E given_id @
                              ustr '': '' @ str_exn e])
          (snd (client_call E (UpdateProduct product_id (bulk_update_data update)) w))"
    by (rule bulk_loop_store_failure)
next
  assume "map_of update (ustr ''product_id'') = Some given_id \<and>
    py_int E given_id = Inr product_id \<and> bulk_update_data update \<noteq> [] \<and>
    fst (client_call E (UpdateProduct product_id (bulk_update_data update)) w) = Inr product \<and>
    py_getitem product (ustr ''name'') = Inr name"
  then show "bulk_loop E (update # rest) (results, errors) w =
        bulk_loop E rest
          (results @ [[0x2705] @ ustr '' Updated product ID '' @ str_int product_id @
                      ustr '': '' @ py_str E name], errors)
          (snd (client_call E (UpdateProduct product_id (bulk_update_data update)) w))"
    by (rule bulk_loop_updated)
qed

text \<open>
  Four requests of which the second has a product id that is no number and the third
  no data: the first and the fourth are updated, the other two give the two errors, in
  order. Then the loop after a request with no product id, after one with the product
  id \<open>two\<close>, after one that a store answering 503 fails, and after one that the store
  updates.
\<close>

theorem bulk_partial_failure_witness:
  "fst (bulk_loop sample_env
          [[(ustr ''product_id'', PInt 1), (ustr ''description'', PStr (ustr ''A red mug''))],
           [(ustr ''product_id'', PStr (ustr ''two'')), (ustr ''description'', PStr (ustr ''A cup''))],
           [(ustr ''product_id'', PInt 3)],
           [(ustr ''product_id'', PInt 4), (ustr ''meta_title'', PStr (ustr ''Blue Mug''))]]
          ([], []) fresh) =
     ([[0x2705] @ ustr '' Updated product ID 1: Mug'', [0x2705] @ ustr '' Updated product ID 4: Mug''],
      [ustr ''Failed to update product ID two: invalid literal for int() with base 10: ...'',
       ustr ''No update data for product ID 3'']) \<and>
   bulk_loop sample_env
     ([(ustr ''description'', PStr (ustr ''A cup''))] # [[(ustr ''product_id'', PInt 3)]])
     ([], []) fresh =
     bulk_loop sample_env [[(ustr ''product_id'', PInt 3)]]
       ([], [] @ [ustr ''Missing product_id in update'']) fresh \<and>
   bulk_loop sample_env
     ([(ustr ''product_id'', PStr (ustr ''two''))] # [[(ustr ''product_id'', PInt 3)]])
     ([], []) fresh =
     bulk_loop sample_env [[(ustr ''product_id'', PInt 3)]]
       ([], [] @ [ustr ''Failed to update product ID '' @
                  py_str sample_env (PStr (ustr ''two'')) @ ustr '': '' @
                  str_exn (ValueError (ustr ''invalid literal for int() with base 10: ...''))])
       fresh \<and>
   bulk_loop down_env
     ([(ustr ''product_id'', PInt 1), (ustr ''description'', PStr (ustr ''A red mug''))] #
      [[(ustr ''product_id'', PInt 3)]])
     ([], []) fresh =
     bulk_loop down_env [[(ustr ''product_id'', PInt 3)]]
       ([], [] @ [ustr ''Failed to update product ID '' @ py_str down_env (PInt 1) @ ustr '': '' @
                  str_exn (OtherError (ustr ''API request failed: 503 - Service Unavailable''))])
       (snd (client_call down_env
               (UpdateProduct 1
                  (bulk_update_data
                     [(ustr ''product_id'', PInt 1),
                      (ustr ''description'', PStr (ustr ''A red mug''))]))
               fresh)) \<and>
   bulk_loop sample_env
     ([(ustr ''product_id'', PInt 1), (ustr ''description'', PStr (ustr ''A red mug''))] #
      [[(ustr ''product_id'', PInt 3)]])
     ([], []) fresh =
     bulk_loop sample_env [[(ustr ''product_id'', PInt 3)]]
       ([] @ [[0x2705] @ ustr '' Updated product ID '' @ str_int 1 @ ustr '': '' @
              py_str sample_env (PStr (ustr ''Mug''))], [])
       (snd (client_call sample_env
               (UpdateProduct 1
                  (bulk_update_data
                     [(ustr ''product_id'', PInt 1),
                      (ustr ''description'', PStr (ustr ''A red mug''))]))
               fresh))"
proof -
  let ?updates =
    "[[(ustr ''product_id'', PInt 1), (ustr ''description'', PStr (ustr ''A red mug''))],
      [(ustr ''product_id'', PStr (ustr ''two'')), (ustr ''description'', PStr (ustr ''A cup''))],
      [(ustr ''product_id'', PInt 3)],
      [(ustr ''product_id'', PInt 4), (ustr ''meta_title'', PStr (ustr ''Blue Mug''))]]"
  let ?one = "[(ustr ''product_id'', PInt 1), (ustr ''description'', PStr (ustr ''A red mug''))]"
  let ?rest = "[[(ustr ''product_id'', PInt 3)]]"
  let ?bad = "ValueError (ustr ''invalid literal for int() with base 10: ...'')"
  let ?down = "OtherError (ustr ''API request failed: 503 - Service Unavailable'')"
  have plan: "fst (plan_requests sample_env ?updates fresh) =
      [Updated ([0x2705] @ ustr '' Updated product ID 1: Mug''),
       Failed (ustr ''Failed to update product ID two: invalid literal for int() with base 10: ...''),
       Failed (ustr ''No update data for product ID 3''),
       Updated ([0x2705] @ ustr '' Updated product ID 4: Mug'')]"
    by (simp add: plan_request_def request_payload_def present_def error_entry_def py_eval)
  from bulk_partial_failure [where E = sample_env and updates = ?updates and w = fresh
      and update = "[]" and rest = "[]" and results = "[]" and errors = "[]"
      and given_id = PNone and e = ?bad and product_id = 0 and product = PNone and name = PNone]
  have "fst (bulk_loop sample_env ?updates ([], []) fresh) =
      (successes (fst (plan_requests sample_env ?updates fresh)),
       failures (fst (plan_requests sample_env ?updates fresh)))"
    by simp
  then have 1: "fst (bulk_loop sample_env ?updates ([], []) fresh) =
     ([[0x2705] @ ustr '' Updated product ID 1: Mug'', [0x2705] @ ustr '' Updated product ID 4: Mug''],
      [ustr ''Failed to update product ID two: invalid literal for int() with base 10: ...'',
       ustr ''No update data for product ID 3''])"
    unfolding plan by (simp add: successes_def failures_def)
  have h2: "map_of [(ustr ''description'', PStr (ustr ''A cup''))] (ustr ''product_id'') = None"
    by (simp add: py_eval)
  from bulk_partial_failure [where E = sample_env and updates = "[]" and w = fresh
      and update = "[(ustr ''description'', PStr (ustr ''A cup''))]" and rest = ?rest
      and results = "[]" and errors = "[]"
      and given_id = PNone and e = ?bad and product_id = 0 and product = PNone and name = PNone] h2
  have 2: "bulk_loop sample_env ([(ustr ''description'', PStr (ustr ''A cup''))] # ?rest)
             ([], []) fresh =
           bulk_loop sample_env ?rest ([], [] @ [ustr ''Missing product_id in update'']) fresh"
    by blast
  have h3: "map_of [(ustr ''product_id'', PStr (ustr ''two''))] (ustr ''product_id'') =
              Some (PStr (ustr ''two'')) \<and>
            py_int sample_env (PStr (ustr ''two'')) = Inl ?bad"
    by (simp add: py_eval)
  from bulk_partial_failure [where E = sample_env and updates = "[]" and w = fresh
      and update = "[(ustr ''product_id'', PStr (ustr ''two''))]" and rest = ?rest
      and results = "[]" and errors = "[]"
      and given_id = "PStr (ustr ''two'')" and e = ?bad and product_id = 0 and product = PNone
      and name = PNone] h3
  have 3: "bulk_loop sample_env ([(ustr ''product_id'', PStr (ustr ''two''))] # ?rest)
             ([], []) fresh =
           bulk_loop sample_env ?rest
             ([], [] @ [ustr ''Failed to update product ID '' @
                        py_str sample_env (PStr (ustr ''two'')) @ ustr '': '' @ str_exn ?bad])
             fresh"
    by blast
  have h4: "map_of ?one (ustr ''product_id'') = Some (PInt 1) \<and>
            py_int down_env (PInt 1) = Inr 1 \<and> bulk_update_data ?one \<noteq> [] \<and>
            fst (client_call down_env (UpdateProduct 1 (bulk_update_data ?one)) fresh) = Inl ?down"
    by (simp add: bulk_update_data_def down_env_def py_eval)
  from bulk_partial_failure [where E = down_env and updates = "[]" and w = fresh
      and update = ?one and rest = ?rest and results = "[]" and errors = "[]"
      and given_id = "PInt 1" and e = ?down and product_id = 1 and product = PNone
      and name = PNone] h4
  have 4: "bulk_loop down_env (?one # ?rest) ([], []) fresh =
           bulk_loop down_env ?rest
             ([], [] @ [ustr ''Failed to update product ID '' @ py_str down_env (PInt 1) @
                        ustr '': '' @ str_exn ?down])
             (snd (client_call down_env (UpdateProduct 1 (bulk_update_data ?one)) fresh))"
    by blast
  have h5: "map_of ?one (ustr ''product_id'') = Some (PInt 1) \<and>
            py_int sample_env (PInt 1) = Inr 1 \<and> bulk_update_data ?one \<noteq> [] \<and>
            fst (client_call sample_env (UpdateProduct 1 (bulk_update_data ?one)) fresh) =
              Inr mug \<and>
            py_getitem mug (ustr ''name'') = Inr (PStr (ustr ''Mug''))"
    by (simp add: bulk_update_data_def py_eval)
  from bulk_partial_failure [where E = sample_env and updates = "[]" and w = fresh
      and update = ?one and rest = ?rest and results = "[]" and errors = "[]"
      and given_id = "PInt 1" and e = ?down and product_id = 1 and product = mug
      and name = "PStr (ustr ''Mug'')"] h5
  have 5: "bulk_loop sample_env (?one # ?rest) ([], []) fresh =
           bulk_loop sample_env ?rest
             ([] @ [[0x2705] @ ustr '' Updated product ID '' @ str_int 1 @ ustr '': '' @
                    py_str sample_env (PStr (ustr ''Mug''))], [])
             (snd (client_call sample_env (UpdateProduct 1 (bulk_update_data ?one)) fresh))"
    by blast
  from 1 2 3 4 5 show ?thesis by blast
qed

text \<open>
  C5. A request of the bulk update with a product id that \<open>int\<close> accepts and none of the
  four fields gets the one error entry \<open>No update data for product ID X\<close>, and its pass
  leaves the state as it was: no call to the store is made for it.
\<close>

theorem no_update_data:
  assumes "map_of update (ustr ''product_id'') = Some v"
      and "py_int E v = Inr product_id"
      and "\<not> has_key update ''description''" and "\<not> has_key update ''short_description''"
      and "\<not> has_key update ''meta_title''" and "\<not> has_key update ''meta_description''"
  shows "bulk_one E update w =
           (Failed (ustr ''No update data for product ID '' @ str_int product_id), w) \<and>
         bulk_loop E [update] (results, errors) w =
           ((results, errors @ [ustr ''No update data for product ID '' @ str_int product_id]), w)"
  using assms
  by (simp add: bulk_one_def bulk_try_def bulk_update_data_def has_key_def dict_get_def
      pure_io_def bind_io_def append_entry_def Let_def)

theorem no_update_data_witness:
  "bulk_one sample_env [(ustr ''product_id'', PStr (ustr ''12''))] fresh =
     (Failed (ustr ''No update data for product ID '' @ str_int 12), fresh) \<and>
   bulk_loop sample_env [[(ustr ''product_id'', PStr (ustr ''12''))]] ([], []) fresh =
     (([], [] @ [ustr ''No update data for product ID '' @ str_int 12]), fresh)"
proof -
  let ?u = "[(ustr ''product_id'', PStr (ustr ''12''))]"
  have 1: "map_of ?u (ustr ''product_id'') = Some (PStr (ustr ''12''))" by simp
  have 2: "py_int sample_env (PStr (ustr ''12'')) = Inr 12" by (simp add: py_eval)
  have 3: "\<not> has_key ?u ''description''" by (simp add: py_eval)
  have 4: "\<not> has_key ?u ''short_description''" by (simp add: py_eval)
  have 5: "\<not> has_key ?u ''meta_title''" by (simp add: py_eval)
  have 6: "\<not> has_key ?u ''meta_description''" by (simp add: py_eval)
  show ?thesis by (rule no_update_data [OF 1 2 3 4 5 6])
qed

text \<open>
  C9. When a request of the bulk update holds both \<open>meta_title\<close> and \<open>meta_description\<close>,
  the payload has under \<open>meta_data\<close> exactly two entries: the first with the key
  \<open>_yoast_wpseo_title\<close> and the supplied title as its value, the second with the key
  \<open>_yoast_wpseo_metadesc\<close> and the supplied description as its value.
\<close>

theorem bulk_meta_entries:
  assumes "map_of update (ustr ''meta_title'') = Some t"
      and "map_of update (ustr ''meta_description'') = Some d"
  shows "map_of (bulk_update_data update) (ustr ''meta_data'') =
           Some (PList [PDict [(ustr ''key'', PStr (ustr ''_yoast_wpseo_title'')), (ustr ''value'', t)],
                        PDict [(ustr ''key'', PStr (ustr ''_yoast_wpseo_metadesc'')), (ustr ''value'', d)]])"
  using assms
  by (simp add: bulk_update_data_def has_key_def dict_get_def meta_entry_def update_conv'
      yoast_title_def yoast_metadesc_def Let_def)

theorem bulk_meta_entries_witness:
  "map_of (bulk_update_data
       [(ustr ''product_id'', PInt 7), (ustr ''meta_title'', PStr (ustr ''Red Mug'')),
        (ustr ''meta_description'', PStr (ustr ''A mug''))]) (ustr ''meta_data'') =
     Some (PList [PDict [(ustr ''key'', PStr (ustr ''_yoast_wpseo_title'')),
                         (ustr ''value'', PStr (ustr ''Red Mug''))],
                  PDict [(ustr ''key'', PStr (ustr ''_yoast_wpseo_metadesc'')),
                         (ustr ''value'', PStr (ustr ''A mug''))]])"
proof -
  let ?u = "[(ustr ''product_id'', PInt 7), (ustr ''meta_title'', PStr (ustr ''Red Mug'')),
             (ustr ''meta_description'', PStr (ustr ''A mug''))]"
  have 1: "map_of ?u (ustr ''meta_title'') = Some (PStr (ustr ''Red Mug''))"
    by (simp add: py_eval)
  have 2: "map_of ?u (ustr ''meta_description'') = Some (PStr (ustr ''A mug''))"
    by (simp add: py_eval)
  show ?thesis using bulk_meta_entries [OF 1 2] by simp
qed

text \<open>The payload of \<open>update_product\<close> has the same two entries when both texts are given
  and not empty.\<close>

lemma update_product_meta_entries:
  assumes "meta_title = Some t" and "t \<noteq> []" and "meta_description = Some d" and "d \<noteq> []"
  shows "map_of (update_product_data description short_description meta_title meta_description)
           (ustr ''meta_data'') =
         Some (PList [meta_entry yoast_title (PStr t), meta_entry yoast_metadesc (PStr d)])"
  using assms
  by (simp add: update_product_data_def of_opt_str_def Let_def update_conv')

subsection \<open>The image audit\<close>

lemma text_field_get:
  "text_field obj key = Some s \<Longrightarrow> bind_exn (py_get obj (ustr key) (PStr [])) py_strip = Inr (strip s)"
  by (auto simp: text_field_def bind_exn_def split: pyval.splits option.splits)

lemma audit_image_findings:
  assumes "image_texts img = Some (alt, name_text)"
  shows "\<exists>a'. audit_image E (PStr product_name) image_num img a = Inr a' \<and>
              issues a' = issues a @ image_issues E product_name (image_num, alt, name_text) \<and>
              good_practices a' =
                good_practices a @ image_good E product_name (image_num, alt, name_text)"
proof -
  from assms have alt: "text_field img ''alt'' = Some alt"
    and nm: "text_field img ''name'' = Some name_text"
    by (auto simp: image_texts_def split: option.splits)
  show ?thesis
    unfolding audit_image_def text_field_get [OF alt] text_field_get [OF nm]
    by (simp add: bind_exn_def check_alt_def check_name_def image_issues_def image_good_def
        alt_finding_def name_finding_def issue_of_def good_of_def)
qed

lemma audit_loop_findings:
  assumes "map image_texts imgs = map Some ts"
  shows "\<exists>a'. audit_loop E (PStr product_name) i imgs a = Inr a' \<and>
              issues a' = issues a @
                concat (map (image_issues E product_name) (zip [Suc i ..< Suc i + length ts] ts)) \<and>
              good_practices a' = good_practices a @
                concat (map (image_good E product_name) (zip [Suc i ..< Suc i + length ts] ts))"
  using assms
proof (induction imgs arbitrary: ts i a)
  case Nil
  then show ?case by simp
next
  case (Cons img imgs)
  then obtain t ts' where ts: "ts = t # ts'" and t: "image_texts img = Some t"
    and rest: "map image_texts imgs = map Some ts'"
    by (cases ts) auto
  obtain alt name_text where tt: "t = (alt, name_text)" by (cases t)
  from audit_image_findings [of img alt name_text E product_name "Suc i" a] t tt
  obtain a1 where a1: "audit_image E (PStr product_name) (Suc i) img a = Inr a1"
    and i1: "issues a1 = issues a @ image_issues E product_name (Suc i, t)"
    and g1: "good_practices a1 = good_practices a @ image_good E product_name (Suc i, t)"
    by auto
  from Cons.IH [OF rest, of "Suc i" a1]
  obtain a2 where a2: "audit_loop E (PStr product_name) (Suc i) imgs a1 = Inr a2"
    and i2: "issues a2 = issues a1 @
                concat (map (image_issues E product_name) (zip [Suc (Suc i) ..< Suc (Suc i) + length ts'] ts'))"
    and g2: "good_practices a2 = good_practices a1 @
                concat (map (image_good E product_name) (zip [Suc (Suc i) ..< Suc (Suc i) + length ts'] ts'))"
    by auto
  have up: "[Suc i ..< Suc i + length ts] = Suc i # [Suc (Suc i) ..< Suc (Suc i) + length ts']"
    using upt_conv_Cons [of "Suc i" "Suc i + length ts"] by (simp add: ts)
  show ?case
    unfolding up
    by (simp add: a1 a2 i1 i2 g1 g2 ts bind_exn_def)
qed


text \<open>
  C8. For a product name that is a text and images whose \<open>alt\<close> and \<open>name\<close> are texts
  (or absent), the loop of the audit ends normally, and what it adds to the issues and
  to the good practices is, image by image and in order: the one finding of the alt
  text (an issue in the first three cases of the chain, a good practice in the fourth),
  then the issue of the name when the name is empty or generic, whatever the alt text.
  The comparisons up to case are those of \<open>str.lower()\<close>, on every text.
\<close>

theorem image_findings:
  assumes "map image_texts imgs = map Some ts"
  shows "\<exists>a'. audit_loop E (PStr product_name) 0 imgs a = Inr a' \<and>
              issues a' = issues a @
                concat (map (image_issues E product_name) (zip [1 ..< 1 + length ts] ts)) \<and>
              good_practices a' = good_practices a @
                concat (map (image_good E product_name) (zip [1 ..< 1 + length ts] ts))"
  using audit_loop_findings [OF assms, of E product_name 0 a] by simp

lemma red_mug_loop:
  "audit_loop E (PStr (ustr ''Red Mug'')) 0 [red_mug_image] empty_audit =
     Inr \<lparr>issues = [warning_sign @ ustr '' Image 1 alt text too short: '' @ quoted (ustr ''Red Mug''),
                    warning_sign @ ustr '' Image 1 has generic or missing name''],
          suggestions = [ustr ''Expand alt text to be more descriptive (10+ characters)'',
                         ustr ''Use descriptive filename: '' @ quoted (ustr ''red-mug-1'')],
          good_practices = []\<rparr>"
  by (simp add: red_mug_image_def audit_image_def check_alt_def check_name_def py_eval)

text \<open>
  C2, as the code has it. For the product \<open>Red Mug\<close> and the one image with alt text
  \<open>Red Mug\<close> and name \<open>img\<close>, the audit records two issues and no good practice: the
  alt text has seven characters, so the second case of the chain (too short) applies
  before the comparison with the product name is reached; the second issue is the
  generic name.
\<close>

theorem red_mug_audit:
  "audit_loop E (PStr (ustr ''Red Mug'')) 0 [red_mug_image] empty_audit =
     Inr \<lparr>issues = [warning_sign @ ustr '' Image 1 alt text too short: '' @ quoted (ustr ''Red Mug''),
                    warning_sign @ ustr '' Image 1 has generic or missing name''],
          suggestions = [ustr ''Expand alt text to be more descriptive (10+ characters)'',
                         ustr ''Use descriptive filename: '' @ quoted (ustr ''red-mug-1'')],
          good_practices = []\<rparr>"
  by (rule red_mug_loop)

text \<open>The issue \<open>alt text is just product name\<close> is not among the issues of that audit.\<close>

theorem red_mug_counterexample:
  "warning_sign @ ustr '' Image 1 alt text is just product name'' \<notin>
     set (issues_of (audit_loop sample_env (PStr (ustr ''Red Mug'')) 0 [red_mug_image] empty_audit))"
  unfolding red_mug_loop by (simp add: issues_of_def py_eval)

theorem image_findings_witness:
  "\<exists>a'. audit_loop sample_env (PStr (ustr ''Red Mug'')) 0
              [red_mug_image,
               PDict [(ustr ''alt'', PStr (ustr ''Red mug on a wooden table''))]] empty_audit = Inr a' \<and>
         issues a' = issues empty_audit @
           concat (map (image_issues sample_env (ustr ''Red Mug''))
             (zip [1 ..< 1 + length [(ustr ''Red Mug'', ustr ''img''),
                                     (ustr ''Red mug on a wooden table'', [])]]
                  [(ustr ''Red Mug'', ustr ''img''), (ustr ''Red mug on a wooden table'', [])])) \<and>
         good_practices a' = good_practices empty_audit @
           concat (map (image_good sample_env (ustr ''Red Mug''))
             (zip [1 ..< 1 + length [(ustr ''Red Mug'', ustr ''img''),
                                     (ustr ''Red mug on a wooden table'', [])]]
                  [(ustr ''Red Mug'', ustr ''img''), (ustr ''Red mug on a wooden table'', [])]))"
proof -
  have texts: "map image_texts
      [red_mug_image, PDict [(ustr ''alt'', PStr (ustr ''Red mug on a wooden table''))]] =
      map Some [(ustr ''Red Mug'', ustr ''img''), (ustr ''Red mug on a wooden table'', [])]"
    by (simp add: image_texts_def text_field_def red_mug_image_def ustr_def)
  show ?thesis by (rule image_findings [OF texts])
qed

subsection \<open>The store statistics\<close>

text \<open>
  C1, at a product on which the code departs from the claim. The product has a
  description and a short description; its first entry with the title key has an
  empty value and a later entry with the same key has a value. The loop of
  \<open>store_stats\<close>, which takes the first entry of a key, counts it as missing SEO data;
  the count of products needing work, which asks whether any entry of the key has a
  value, leaves it out.
\<close>

theorem store_stats_duplicate_meta:
  "store_stats_count (PList [dup_meta_product]) =
     Inr \<lparr>total_products = 1, published_products = 1, draft_products = 0,
          count_missing_description = 0, count_missing_short_description = 0,
          count_missing_seo = 1, total_needing_optimization = 0\<rparr> \<and>
   seo_missing dup_meta_product = Inr True \<and>
   needs_work dup_meta_product = Inr False"
  by (simp add: dup_meta_product_def py_eval)

lemma py_len_iter: "py_len v = Inr n \<Longrightarrow> py_iter v = Inr xs \<Longrightarrow> n = length xs"
  by (cases v) auto

lemma count_product_total:
  "count_product p st = Inr st' \<Longrightarrow> total_products st' = total_products st"
  by (auto simp: count_product_def bind_exn_def Let_def split: sum.splits if_splits)

lemma fold_count_total:
  "fold_exn count_product ps st = Inr st' \<Longrightarrow> total_products st' = total_products st"
proof (induction ps arbitrary: st)
  case Nil
  then show ?case by simp
next
  case (Cons p ps)
  then show ?case
    by (auto simp: bind_exn_def split: sum.splits dest: count_product_total)
qed

lemma needing_from_length: "needing_from i ps = Inr xs \<Longrightarrow> length xs \<le> length ps"
proof (induction ps arbitrary: i xs)
  case Nil
  then show ?case by simp
next
  case (Cons p ps)
  then show ?case
    by (fastforce simp: bind_exn_def split: sum.splits if_splits)
qed

text \<open>
  C6. When the counting of \<open>store_stats\<close> succeeds, the total is the number of products,
  the products needing work are at most that many, and the score is 100 when there is
  no product and otherwise \<open>(total - needing) / total * 100\<close>, as an exact rational (the
  source computes it in floating point and prints one decimal).
\<close>

theorem optimization_score:
  assumes "store_stats_count products = Inr st"
  shows "py_len products = Inr (total_products st) \<and>
         total_needing_optimization st \<le> total_products st \<and>
         optimization_percentage st =
           (if total_products st = 0 then 100
            else (of_nat (total_products st) - of_nat (total_needing_optimization st))
                   / of_nat (total_products st) * 100)"
proof -
  from assms obtain n ps st0 xs where n: "py_len products = Inr n"
    and ps: "py_iter products = Inr ps"
    and st0: "fold_exn count_product ps
                 \<lparr>total_products = n, published_products = 0, draft_products = 0,
                  count_missing_description = 0, count_missing_short_description = 0,
                  count_missing_seo = 0, total_needing_optimization = 0\<rparr> = Inr st0"
    and xs: "needing_from 0 ps = Inr xs"
    and st: "st = st0\<lparr>total_needing_optimization := length (remdups xs)\<rparr>"
    by (auto simp: store_stats_count_def bind_exn_def split: sum.splits)
  from fold_count_total [OF st0] have t: "total_products st = n" by (simp add: st)
  from fold_count_total [OF st0] have t0: "total_products st0 = n" by simp
  have "length (remdups xs) \<le> length xs" by (rule length_remdups_leq)
  also from needing_from_length [OF xs] have "\<dots> \<le> length ps" .
  also from py_len_iter [OF n ps] have "length ps = n" by simp
  finally have le: "total_needing_optimization st \<le> total_products st" by (simp add: st t0)
  show ?thesis using n t le by (simp add: optimization_percentage_def)
qed


theorem optimization_score_witness:
  "store_stats_count (PList [dup_meta_product, no_description_product]) =
     Inr \<lparr>total_products = 2, published_products = 2, draft_products = 0,
          count_missing_description = 1, count_missing_short_description = 0,
          count_missing_seo = 2, total_needing_optimization = 1\<rparr> \<and>
   optimization_percentage
     \<lparr>total_products = 2, published_products = 2, draft_products = 0,
      count_missing_description = 1, count_missing_short_description = 0,
      count_missing_seo = 2, total_needing_optimization = 1\<rparr> = 50"
proof -
  have count: "store_stats_count (PList [dup_meta_product, no_description_product]) =
     Inr \<lparr>total_products = 2, published_products = 2, draft_products = 0,
          count_missing_description = 1, count_missing_short_description = 0,
          count_missing_seo = 2, total_needing_optimization = 1\<rparr>"
    by (simp add: dup_meta_product_def no_description_product_def py_eval)
  from optimization_score [OF count] show ?thesis using count by simp
qed

subsection \<open>Absent descriptions\<close>

text \<open>
  C7, at a product on which the code departs from the claim. \<open>get_products\<close> calls
  \<open>product.get('description')\<close> with no default, so for a product with no description
  key it calls \<open>strip\<close> on \<open>None\<close> and returns the text of the handler; the test of
  \<open>analyze_products\<close> and \<open>store_stats\<close>, which passes the default \<open>''\<close>, classifies the
  same product as missing its description.
\<close>

theorem get_products_absent_description:
  "fst (get_products (store_answering (PList [no_description_product])) None None 10 fresh) =
     Inr (ustr ''Error fetching products: '' @ str_exn (no_attribute PNone ''strip'')) \<and>
   missing_content no_description_product = Inl (no_attribute PNone ''strip'') \<and>
   blank_field no_description_product ''description'' = Inr True"
  by (simp add: no_description_product_def store_answering_def py_eval)

subsection \<open>update_product\<close>

text \<open>
  C10, as stated, fails when the client cannot be built: with the configuration file
  missing and every field absent or empty, \<open>update_product\<close> returns the text of its
  handler, not \<open>Error: No update data provided\<close>.
\<close>

theorem update_product_no_client_counterexample:
  "fst (update_product broken_env 7 None (Some []) None None fresh) \<noteq>
     Inr (ustr ''Error: No update data provided'')"
  by (simp add: update_product_def update_product_body_def broken_env_def py_eval)

lemma update_product_data_no_empty:
  "\<not> has_empty_str (PDict (update_product_data description short_description meta_title meta_description))"
  by (cases description; cases short_description; cases meta_title; cases meta_description)
     (simp_all add: update_product_data_def of_opt_str_def Let_def update_conv' meta_entry_def
        yoast_title_def yoast_metadesc_def ustr_def)

lemma update_product_data_empty:
  assumes "description = None \<or> description = Some []"
      and "short_description = None \<or> short_description = Some []"
      and "meta_title = None \<or> meta_title = Some []"
      and "meta_description = None \<or> meta_description = Some []"
  shows "update_product_data description short_description meta_title meta_description = []"
  using assms by (auto simp: update_product_data_def of_opt_str_def Let_def)

lemma update_product_calls:
  "calls (snd (update_product E product_id description short_description meta_title meta_description w)) =
     calls w \<or>
   calls (snd (update_product E product_id description short_description meta_title meta_description w)) =
     calls w @ [UpdateProduct product_id
                  (update_product_data description short_description meta_title meta_description)]"
  by (auto simp: update_product_def update_product_body_def try_except_def bind_io_def
      get_woo_client_def client_call_def pure_io_def Let_def
      split: sum.splits prod.splits option.splits if_splits)

text \<open>
  C10, as the code has it. When each of the four fields is absent or the empty string,
  \<open>update_product\<close> makes no call to the store; it returns
  \<open>Error: No update data provided\<close> when the client is at hand, and
  \<open>Error updating product: ...\<close> with the message of the failure when building the
  client raises. Whatever the arguments, the payload holds no empty string, and the
  operation makes at most one call, the update with that payload. The bulk update
  keeps a field that is present and empty.
\<close>

theorem update_product_empty_fields:
  "((description = None \<or> description = Some []) \<and>
    (short_description = None \<or> short_description = Some []) \<and>
    (meta_title = None \<or> meta_title = Some []) \<and>
    (meta_description = None \<or> meta_description = Some []) \<longrightarrow>
      calls (snd (update_product E product_id description short_description meta_title
                    meta_description w)) = calls w \<and>
      (fst (get_woo_client E w) = Inr () \<longrightarrow>
         fst (update_product E product_id description short_description meta_title
                meta_description w) = Inr (ustr ''Error: No update data provided'')) \<and>
      (\<forall>e. fst (get_woo_client E w) = Inl e \<longrightarrow>
         fst (update_product E product_id description short_description meta_title
                meta_description w) = Inr (ustr ''Error updating product: '' @ str_exn e))) \<and>
   \<not> has_empty_str (PDict (update_product_data description short_description meta_title
                              meta_description)) \<and>
   (calls (snd (update_product E product_id description short_description meta_title
                  meta_description w)) = calls w \<or>
    calls (snd (update_product E product_id description short_description meta_title
                  meta_description w)) =
      calls w @ [UpdateProduct product_id
                   (update_product_data description short_description meta_title meta_description)]) \<and>
   bulk_update_data [(ustr ''description'', PStr [])] = [(ustr ''description'', PStr [])]"
proof -
  have empty: "calls (snd (update_product E product_id description short_description meta_title
                    meta_description w)) = calls w \<and>
      (fst (get_woo_client E w) = Inr () \<longrightarrow>
         fst (update_product E product_id description short_description meta_title
                meta_description w) = Inr (ustr ''Error: No update data provided'')) \<and>
      (\<forall>e. fst (get_woo_client E w) = Inl e \<longrightarrow>
         fst (update_product E product_id description short_description meta_title
                meta_description w) = Inr (ustr ''Error updating product: '' @ str_exn e))"
    if "update_product_data description short_description meta_title meta_description = []"
    using that
    by (auto simp: update_product_def update_product_body_def try_except_def bind_io_def
        get_woo_client_def pure_io_def Let_def split: sum.splits prod.splits option.splits if_splits)
  have bulk: "bulk_update_data [(ustr ''description'', PStr [])] = [(ustr ''description'', PStr [])]"
    by (simp add: bulk_update_data_def py_eval)
  show ?thesis
    using empty update_product_data_empty [of description short_description meta_title meta_description]
      update_product_data_no_empty [of description short_description meta_title meta_description]
      update_product_calls [of E product_id description short_description meta_title meta_description w]
      bulk
    by blast
qed

theorem update_product_empty_fields_witness:
  "fst (get_woo_client sample_env fresh) = Inr () \<and>
   fst (update_product sample_env 7 (Some []) None (Some []) None fresh) =
     Inr (ustr ''Error: No update data provided'') \<and>
   calls (snd (update_product sample_env 7 (Some []) None (Some []) None fresh)) = calls fresh"
proof -
  have ok: "fst (get_woo_client sample_env fresh) = Inr ()" by (simp add: py_eval)
  from update_product_empty_fields [of "Some []" None "Some []" None sample_env 7 fresh] ok
  show ?thesis by blast
qed

end
